theory Spec2Isabelle
  imports Main
begin

section \<open>Python strings\<close>

text \<open>
  Paths, unit names and extensions are Python \<open>str\<close> values, modelled as \<open>string\<close>.
  The Windows separator, written \<open>"\\"\<close> in the source, is the one-character string \<open>bs\<close>.
\<close>

abbreviation bs :: string where
  "bs \<equiv> [CHR 0x5C]"

text \<open>\<open>s.endswith(suf)\<close>.\<close>

definition endswith :: "string \<Rightarrow> string \<Rightarrow> bool" where
  "endswith s suf = (length suf \<le> length s \<and> drop (length s - length suf) s = suf)"

text \<open>\<open>s.removesuffix(suf)\<close>: the suffix is removed once, when it is there and not empty.\<close>

definition removesuffix :: "string \<Rightarrow> string \<Rightarrow> string" where
  "removesuffix s suf =
     (if suf \<noteq> [] \<and> endswith s suf then take (length s - length suf) s else s)"

text \<open>\<open>s.lower()\<close>, on the ASCII letters; every other character is kept.\<close>

definition lower_char :: "char \<Rightarrow> char" where
  "lower_char c =
     (case map_of (zip ''ABCDEFGHIJKLMNOPQRSTUVWXYZ'' ''abcdefghijklmnopqrstuvwxyz'') c of
        Some d \<Rightarrow> d
      | None \<Rightarrow> c)"

definition lower :: "string \<Rightarrow> string" where
  "lower s = map lower_char s"

text \<open>\<open>p.rfind(c)\<close> for a one-character \<open>c\<close>: the last index of \<open>c\<close>, or \<open>-1\<close>.\<close>

fun rfind :: "char \<Rightarrow> string \<Rightarrow> int" where
  "rfind c [] = - 1"
| "rfind c (x # xs) =
     (let r = rfind c xs in if 0 \<le> r then r + 1 else if x = c then 0 else - 1)"

section \<open>File extensions\<close>

text \<open>
  \<open>os.path.splitext\<close> (\<open>genericpath._splitext\<close>): the extension starts at the last dot
  of the last path component, unless only dots stand before it in that component.
  The loop skips the leading dots of the component; it returns from inside at the first
  other character (\<open>Some\<close>), and falls through when there is none (\<open>None\<close>).
\<close>

function splitext_loop :: "string \<Rightarrow> nat \<Rightarrow> nat \<Rightarrow> (string \<times> string) option" where
  "splitext_loop p filenameIndex dotIndex =
     (if filenameIndex < dotIndex then
        (if take 1 (drop filenameIndex p) \<noteq> ''.'' then Some (take dotIndex p, drop dotIndex p)
         else splitext_loop p (Suc filenameIndex) dotIndex)
      else None)"
  by pat_completeness auto
termination
  by (relation "measure (\<lambda>(p, filenameIndex, dotIndex). dotIndex - filenameIndex)") auto

declare splitext_loop.simps [simp del]

definition splitext_generic :: "string \<Rightarrow> char \<Rightarrow> char option \<Rightarrow> string \<times> string" where
  "splitext_generic p sep altsep =
     (let sepIndex = rfind sep p;
          sepIndex = (case altsep of None \<Rightarrow> sepIndex | Some a \<Rightarrow> max sepIndex (rfind a p));
          dotIndex = rfind (CHR ''.'') p
      in if sepIndex < dotIndex then
           (case splitext_loop p (nat (sepIndex + 1)) (nat dotIndex) of
              Some r \<Rightarrow> r
            | None \<Rightarrow> (p, []))
         else (p, []))"

text \<open>
  \<open>os.path\<close> is \<open>ntpath\<close> on Windows (separator backslash, alternative separator slash)
  and \<open>posixpath\<close> elsewhere (separator slash only).
\<close>

definition splitext :: "bool \<Rightarrow> string \<Rightarrow> string \<times> string" where
  "splitext nt p =
     (if nt then splitext_generic p (CHR 0x5C) (Some (CHR ''/''))
      else splitext_generic p (CHR ''/'') None)"

section \<open>Data model\<close>

text \<open>
  Exceptions are values. \<open>LibraryError\<close> stands for whatever an image library, the
  conversion utility or the archive reader raises on its own.
\<close>

datatype error =
    RuntimeError string
  | KeyError string
  | ValueError string
  | FileNotFoundError string
  | LibraryError string

text \<open>
  A \<open>numpy\<close> array: its shape and its elements in row-major order. An image of shape
  \<open>[h, w, c]\<close> holds the \<open>c\<close> channel values of a pixel next to each other.
\<close>

datatype ndarray = NDArray (shape: "nat list") (data: "nat list")

text \<open>
  The enumeration \<open>TEXTURE\<close>; \<open>texture_name\<close> is the member's \<open>.name\<close>,
  \<open>texture_value\<close> its value, and \<open>TEX_LABEL\<close> the table of labels beside it.
\<close>

datatype TEXTURE = Albedo | SpecTeam | normalsTS

fun texture_name :: "TEXTURE \<Rightarrow> string" where
  "texture_name Albedo = ''Albedo''"
| "texture_name SpecTeam = ''SpecTeam''"
| "texture_name normalsTS = ''normalsTS''"

fun texture_value :: "TEXTURE \<Rightarrow> string" where
  "texture_value Albedo = ''Albedo''"
| "texture_value SpecTeam = ''SpecTeam''"
| "texture_value normalsTS = ''normals''"

fun TEX_LABEL :: "TEXTURE \<Rightarrow> string" where
  "TEX_LABEL Albedo = ''Albedo''"
| "TEX_LABEL SpecTeam = ''SpecTeam''"
| "TEX_LABEL normalsTS = ''normalsTS''"

text \<open>
  What the code reads from outside itself: the operating system's name, the extension lists of
  the format registry, the two image libraries, the conversion utility, the archives on disk and
  the name \<open>mkdtemp\<close> picks. A library call returns its value or the exception it raises.
\<close>

record env =
  platform_system :: string
  get_pil_formats :: "string list"
  get_opencv_formats :: "string list"
  Image_open :: "string \<Rightarrow> error + ndarray"
  imdecode_fromfile :: "string \<Rightarrow> error + ndarray option"
  imread :: "string \<Rightarrow> error + ndarray option"
  texconv :: "string \<Rightarrow> error + string"
  zip_namelist :: "string \<Rightarrow> string list option"
  tempname :: "string \<Rightarrow> string set \<Rightarrow> string"

text \<open>
  The effects a claim speaks of: the paths that exist on disk, and the calls made so far
  (a temporary directory made, an archive member extracted, a decoder of the chain invoked,
  a directory tree removed).
\<close>

datatype event =
    Mkdtemp string
  | ZipExtract string string string
  | Decode string string
  | Rmtree string

record state =
  fs :: "string set"
  trace :: "event list"

definition log :: "event \<Rightarrow> state \<Rightarrow> state" where
  "log e s = s\<lparr>trace := trace s @ [e]\<rparr>"

type_synonym result = "error + ndarray option"

type_synonym decoder = "state \<Rightarrow> string \<Rightarrow> state \<times> result"

section \<open>Helpers of the repository and the libraries\<close>

text \<open>
  Modelled from the spec: \<open>split_file_path\<close> of \<open>nodes.utils.utils\<close> is not among the
  sources. The spec speaks of a path's extension; \<open>get_ext\<close> takes the third component of
  \<open>split_file_path\<close> to be the extension \<open>os.path.splitext\<close> gives, and lowers it as the
  source does.
\<close>

definition get_ext :: "env \<Rightarrow> string \<Rightarrow> string" where
  "get_ext env path = lower (snd (splitext (platform_system env = ''Windows'') path))"

text \<open>
  Modelled from the spec: \<open>get_h_w_c\<close> of \<open>nodes.utils.utils\<close> is not among the sources.
  It gives height, width and channel count of an array; a two-dimensional array has one
  channel. An array of fewer than two dimensions has no height and width.
\<close>

definition get_h_w_c :: "ndarray \<Rightarrow> error + nat \<times> nat \<times> nat" where
  "get_h_w_c img =
     (case shape img of
        h # w # rest \<Rightarrow> Inr (h, w, (case rest of [] \<Rightarrow> 1 | c # _ \<Rightarrow> c))
      | _ \<Rightarrow> Inl (ValueError ''not enough values to unpack''))"

text \<open>
  \<open>cv2.cvtColor\<close> with \<open>COLOR_RGB2BGR\<close> and \<open>COLOR_RGBA2BGRA\<close>: in every pixel the first
  and the third channel change places.
\<close>

fun RGB2BGR :: "nat list \<Rightarrow> nat list" where
  "RGB2BGR (r # g # b # rest) = b # g # r # RGB2BGR rest"
| "RGB2BGR xs = xs"

fun RGBA2BGRA :: "nat list \<Rightarrow> nat list" where
  "RGBA2BGRA (r # g # b # a # rest) = b # g # r # a # RGBA2BGRA rest"
| "RGBA2BGRA xs = xs"

definition cvtColor :: "(nat list \<Rightarrow> nat list) \<Rightarrow> ndarray \<Rightarrow> ndarray" where
  "cvtColor code img = NDArray (shape img) (code (data img))"

text \<open>
  Modelled from the spec: \<open>dds_to_png_texconv\<close> of \<open>nodes.impl.dds.texconv\<close> is not among
  the sources. It runs the external conversion utility, which writes a temporary PNG and
  gives its path, or fails.
\<close>

definition dds_to_png_texconv :: "env \<Rightarrow> state \<Rightarrow> string \<Rightarrow> state \<times> (error + string)" where
  "dds_to_png_texconv env s path =
     (case texconv env path of
        Inl e \<Rightarrow> (s, Inl e)
      | Inr png \<Rightarrow> (s\<lparr>fs := insert png (fs s)\<rparr>, Inr png))"

text \<open>\<open>os.remove\<close>: the file is deleted; a file that is not there is an error.\<close>

definition os_remove :: "string \<Rightarrow> state \<Rightarrow> state \<times> (error + unit)" where
  "os_remove p s =
     (if p \<in> fs s then (s\<lparr>fs := fs s - {p}\<rparr>, Inr ()) else (s, Inl (FileNotFoundError p)))"

text \<open>\<open>tempfile.mkdtemp\<close>: a directory of a name of the system's choice is created.\<close>

definition mkdtemp :: "env \<Rightarrow> string \<Rightarrow> state \<Rightarrow> state \<times> string" where
  "mkdtemp env pfx s =
     (let d = tempname env pfx (fs s)
      in (log (Mkdtemp d) (s\<lparr>fs := insert d (fs s)\<rparr>), d))"

text \<open>
  \<open>with ZipFile(archive, 'r') as z: z.extract(member, path=dest)\<close>. A path that is no
  archive cannot be opened; a member that the archive does not have is a \<open>KeyError\<close>;
  otherwise the member is written below \<open>dest\<close>, with the separators of the system.
\<close>

definition extract_target :: "env \<Rightarrow> string \<Rightarrow> string \<Rightarrow> string" where
  "extract_target env dest member =
     (if platform_system env = ''Windows''
      then dest @ bs @ map (\<lambda>c. if c = CHR ''/'' then CHR 0x5C else c) member
      else dest @ ''/'' @ member)"

definition zip_extract ::
  "env \<Rightarrow> string \<Rightarrow> string \<Rightarrow> string \<Rightarrow> state \<Rightarrow> state \<times> (error + unit)" where
  "zip_extract env archive member dest s =
     (let s1 = log (ZipExtract archive member dest) s
      in case zip_namelist env archive of
           None \<Rightarrow> (s1, Inl (FileNotFoundError archive))
         | Some names \<Rightarrow>
             if member \<in> set names
             then (s1\<lparr>fs := insert (extract_target env dest member) (fs s1)\<rparr>, Inr ())
             else (s1, Inl (KeyError member)))"

text \<open>\<open>shutil.rmtree\<close>: the directory and everything below it is gone.\<close>

definition below :: "string \<Rightarrow> string \<Rightarrow> bool" where
  "below d p =
     (p = d \<or> take (Suc (length d)) p = d @ bs \<or> take (Suc (length d)) p = d @ ''/'')"

definition rmtree :: "string \<Rightarrow> state \<Rightarrow> state" where
  "rmtree d s = log (Rmtree d) (s\<lparr>fs := Set.filter (\<lambda>p. \<not> below d p) (fs s)\<rparr>)"

section \<open>The decoders\<close>

abbreviation dq :: string where
  "dq \<equiv> [CHR 0x22]"

definition corrupt_msg :: "string \<Rightarrow> string" where
  "corrupt_msg path =
     ''Error reading image image from path '' @ dq @ path @ dq @ ''. Image may be corrupt.''"

definition unreadable_msg :: "string \<Rightarrow> string" where
  "unreadable_msg path =
     ''The image '' @ dq @ path @ dq @ '' you are trying to read cannot be read by chaiNNer.''"

text \<open>
  \<open>_read_cv\<close>. An exception of the first attempt is logged and dropped; the second attempt
  runs when the first gave nothing, and its exception, or its giving nothing, is the
  \<open>RuntimeError\<close> that names the path.
\<close>

definition read_cv :: "env \<Rightarrow> string \<Rightarrow> result" where
  "read_cv env path =
     (if get_ext env path \<notin> set (get_opencv_formats env) then Inr None
      else
        let img = (case imdecode_fromfile env path of Inl cv_err \<Rightarrow> None | Inr r \<Rightarrow> r)
        in case (if img = None
                 then (case imread env path of
                         Inl e \<Rightarrow> Inl (RuntimeError (corrupt_msg path))
                       | Inr r \<Rightarrow> Inr r)
                 else Inr img) of
             Inl e \<Rightarrow> Inl e
           | Inr img \<Rightarrow>
               if img = None then Inl (RuntimeError (corrupt_msg path)) else Inr img)"

text \<open>\<open>_read_pil\<close>.\<close>

definition read_pil :: "env \<Rightarrow> string \<Rightarrow> result" where
  "read_pil env path =
     (if get_ext env path \<notin> set (get_pil_formats env) then Inr None
      else
        case Image_open env path of
          Inl e \<Rightarrow> Inl e
        | Inr img \<Rightarrow>
            (case get_h_w_c img of
               Inl e \<Rightarrow> Inl e
             | Inr (h, w, c) \<Rightarrow>
                 if c = 3 then Inr (Some (cvtColor RGB2BGR img))
                 else if c = 4 then Inr (Some (cvtColor RGBA2BGRA img))
                 else Inr (Some img)))"

text \<open>
  \<open>_read_dds\<close>. The \<open>finally\<close> block runs when \<open>_read_cv\<close> returns and when it raises; an
  exception of \<open>os.remove\<close> itself takes the place of either.
\<close>

definition read_dds :: "env \<Rightarrow> decoder" where
  "read_dds env s path =
     (if get_ext env path \<noteq> ''.dds'' then (s, Inr None)
      else if platform_system env \<noteq> ''Windows'' then (s, Inr None)
      else
        case dds_to_png_texconv env s path of
          (s1, Inl e) \<Rightarrow> (s1, Inl e)
        | (s1, Inr png) \<Rightarrow>
            (let r = read_cv env png
             in case os_remove png s1 of
                  (s2, Inl e) \<Rightarrow> (s2, Inl e)
                | (s2, Inr u) \<Rightarrow> (s2, r)))"

text \<open>A decoder that touches nothing on disk, as a decoder of the chain.\<close>

definition pure_decoder :: "(string \<Rightarrow> result) \<Rightarrow> decoder" where
  "pure_decoder d s path = (s, d path)"

text \<open>\<open>_for_ext\<close>.\<close>

definition for_ext :: "env \<Rightarrow> string list \<Rightarrow> decoder \<Rightarrow> decoder" where
  "for_ext env ext_set decoder s path =
     (if get_ext env path \<in> set ext_set then decoder s path else (s, Inr None))"

text \<open>\<open>_decoders\<close>.\<close>

definition decoders :: "env \<Rightarrow> (string \<times> decoder) list" where
  "decoders env =
     [(''pil-jpeg'', for_ext env [''.jpg'', ''.jpeg''] (pure_decoder (read_pil env))),
      (''cv'', pure_decoder (read_cv env)),
      (''texconv-dds'', read_dds env),
      (''pil'', pure_decoder (read_pil env))]"

section \<open>The load operation\<close>

text \<open>
  The loop over \<open>_decoders\<close> in \<open>load_image_node\<close>, with its two variables \<open>img\<close> and
  \<open>error\<close>: an exception of a decoder is kept in \<open>error\<close> and leaves \<open>img\<close> as it was; the
  loop is left as soon as \<open>img\<close> is not \<open>None\<close>.
\<close>

fun run_decoders ::
  "(string \<times> decoder) list \<Rightarrow> string \<Rightarrow> state \<Rightarrow> ndarray option \<Rightarrow> error option \<Rightarrow>
   state \<times> ndarray option \<times> error option" where
  "run_decoders [] path s img err = (s, img, err)"
| "run_decoders ((name, decoder) # rest) path s img err =
     (case decoder (log (Decode name path) s) path of
        (s1, Inl e) \<Rightarrow>
          if img \<noteq> None then (s1, img, Some e) else run_decoders rest path s1 img (Some e)
      | (s1, Inr r) \<Rightarrow>
          if r \<noteq> None then (s1, r, err) else run_decoders rest path s1 r err)"

text \<open>
  \<open>load_image_node\<close>. The result is the exception raised, or the tuple returned. In archive
  mode an exception of the extraction leaves the function at once; the decoders' exceptions
  are caught by the loop, and the one kept last is raised after the directory is removed.
  The calls of the logger and the call of \<open>split_file_path\<close> before the loop, whose values
  are not used, change nothing and are left out.
\<close>

definition load_image_node ::
  "env \<Rightarrow> state \<Rightarrow> string \<Rightarrow> string \<Rightarrow> TEXTURE \<Rightarrow> string \<Rightarrow>
   state \<times> (error + ndarray \<times> string \<times> string \<times> string \<times> string)" where
  "load_image_node env s path0 unit texture target =
     (let texture = texture_name texture;
          filename = unit @ ''_'' @ texture;
          compressed = endswith path0 ''units.scd'';
          staged =
            (if compressed then
               (let (s1, tempdir) = mkdtemp env ''chaiNNerSCD-'' s
                in case zip_extract env path0 (''units/'' @ unit @ ''/'' @ filename @ ''.dds'')
                          tempdir s1 of
                     (s2, Inl e) \<Rightarrow> (s2, Inl e)
                   | (s2, Inr u) \<Rightarrow>
                       (s2, Inr (tempdir @ bs @ ''units'' @ bs @ unit @ bs @ filename @ ''.dds'',
                                 tempdir)))
             else
               (s, Inr (removesuffix path0 bs @ bs @ unit @ bs @ filename @ ''.dds'', [])))
      in case staged of
           (s2, Inl e) \<Rightarrow> (s2, Inl e)
         | (s2, Inr (path, tempdir)) \<Rightarrow>
             (let (s3, img, error) = run_decoders (decoders env) path s2 None None;
                  s4 = (if compressed then rmtree tempdir s3 else s3)
              in case img of
                   None \<Rightarrow>
                     (case error of
                        Some e \<Rightarrow> (s4, Inl e)
                      | None \<Rightarrow> (s4, Inl (RuntimeError (unreadable_msg path))))
                 | Some i \<Rightarrow> (s4, Inr (i, path0, unit, filename, target))))"

section \<open>Vocabulary of the properties\<close>

text \<open>
  What each decoder of the chain gives at a path, in the order of the chain; whether a
  result is a raster; the exception raised last among some results; and the calls made
  between two states.
\<close>

definition results :: "env \<Rightarrow> state \<Rightarrow> string \<Rightarrow> result list" where
  "results env s path = map (\<lambda>(name, decoder). snd (decoder s path)) (decoders env)"

fun no_raster :: "result \<Rightarrow> bool" where
  "no_raster (Inr (Some img)) = False"
| "no_raster r = True"

fun most_recent_error :: "result list \<Rightarrow> error option" where
  "most_recent_error [] = None"
| "most_recent_error (r # rs) =
     (case most_recent_error rs of
        Some e \<Rightarrow> Some e
      | None \<Rightarrow> (case r of Inl e \<Rightarrow> Some e | Inr v \<Rightarrow> None))"

definition invoked :: "state \<Rightarrow> state \<Rightarrow> event list" where
  "invoked s s' = drop (length (trace s)) (trace s')"

section \<open>Sample environments\<close>

text \<open>
  A Windows machine with one archive, which holds the albedo texture of unit \<open>UEB0301\<close> and
  nothing else. The conversion utility converts the staged albedo texture and the normals
  texture on disk; the first of the two PNG files is readable, the second is not. The image
  library opens the two textures and one photograph, which the other library reads as well.
\<close>

definition sample_image :: ndarray where
  "sample_image = NDArray [1, 2, 3] [10, 20, 30, 40, 50, 60]"

definition other_image :: ndarray where
  "other_image = NDArray [1, 1, 4] [1, 2, 3, 4]"

definition scd :: string where
  "scd = ''C:'' @ bs @ ''tex'' @ bs @ ''units.scd''"

definition units_dir :: string where
  "units_dir = ''C:'' @ bs @ ''tex'' @ bs @ ''units''"

definition tempdir0 :: string where
  "tempdir0 = ''T:'' @ bs @ ''chaiNNerSCD-0''"

definition staged_albedo :: string where
  "staged_albedo = tempdir0 @ bs @ ''units'' @ bs @ ''UEB0301'' @ bs @ ''UEB0301_Albedo.dds''"

definition direct_normals :: string where
  "direct_normals = units_dir @ bs @ ''UEB0301'' @ bs @ ''UEB0301_normalsTS.dds''"

definition windows :: env where
  "windows =
     \<lparr>platform_system = ''Windows'',
      get_pil_formats = [''.jpg'', ''.jpeg'', ''.png'', ''.dds''],
      get_opencv_formats = [''.jpg'', ''.jpeg'', ''.png''],
      Image_open =
        (\<lambda>p. if p = staged_albedo \<or> p = direct_normals \<or> p = ''photo.jpg''
             then Inr sample_image
             else Inl (LibraryError ''cannot identify image file'')),
      imdecode_fromfile =
        (\<lambda>p. if p = ''albedo.png'' \<or> p = ''photo.jpg'' then Inr (Some other_image) else Inr None),
      imread = (\<lambda>p. Inr None),
      texconv =
        (\<lambda>p. if p = staged_albedo then Inr ''albedo.png''
             else if p = direct_normals then Inr ''normals.png''
             else Inl (LibraryError ''Unable to convert DDS'')),
      zip_namelist = (\<lambda>p. if p = scd then Some [''units/UEB0301/UEB0301_Albedo.dds''] else None),
      tempname = (\<lambda>pfx existing. ''T:'' @ bs @ pfx @ ''0'')\<rparr>"

text \<open>
  A machine that is not Windows, on which no library claims the extension \<open>.dds\<close> and there
  is no archive.
\<close>

definition linux :: env where
  "linux =
     \<lparr>platform_system = ''Linux'',
      get_pil_formats = [''.jpg'', ''.jpeg'', ''.png''],
      get_opencv_formats = [''.jpg'', ''.jpeg'', ''.png''],
      Image_open = (\<lambda>p. Inl (LibraryError ''cannot identify image file'')),
      imdecode_fromfile = (\<lambda>p. Inr None),
      imread = (\<lambda>p. Inr None),
      texconv = (\<lambda>p. Inl (LibraryError ''Unable to convert DDS'')),
      zip_namelist = (\<lambda>p. None),
      tempname = (\<lambda>pfx existing. ''/tmp/'' @ pfx @ ''0'')\<rparr>"

definition empty_disk :: state where
  "empty_disk = \<lparr>fs = {}, trace = []\<rparr>"

section \<open>The extension of a texture path\<close>

lemma rfind_lower: "- 1 \<le> rfind c xs"
  by (induction xs) (auto simp: Let_def)

lemma rfind_notin: "c \<notin> set xs \<Longrightarrow> rfind c xs = - 1"
  by (induction xs) (auto simp: Let_def)

lemma rfind_in: "c \<in> set xs \<Longrightarrow> 0 \<le> rfind c xs"
  by (induction xs) (auto simp: Let_def)

lemma rfind_upper: "rfind c xs < int (length xs)"
  by (induction xs) (auto simp: Let_def)

lemma rfind_append:
  "rfind c (xs @ ys) = (if c \<in> set ys then int (length xs) + rfind c ys else rfind c xs)"
proof (induction xs)
  case Nil
  then show ?case by (simp add: rfind_notin)
next
  case (Cons x xs)
  then show ?case
    using rfind_in [of c ys] rfind_notin [of c ys] rfind_lower [of c xs]
    by (auto simp: Let_def)
qed

lemma splitext_loop_finds:
  "i \<le> j \<Longrightarrow> j < d \<Longrightarrow> j < length p \<Longrightarrow> p ! j \<noteq> CHR ''.'' \<Longrightarrow>
   splitext_loop p i d = Some (take d p, drop d p)"
proof (induction p i d rule: splitext_loop.induct)
  case (1 p filenameIndex dotIndex)
  show ?case
  proof (cases "take 1 (drop filenameIndex p) \<noteq> ''.''")
    case True
    with 1 show ?thesis by (subst splitext_loop.simps) simp
  next
    case False
    have "filenameIndex \<noteq> j"
    proof
      assume "filenameIndex = j"
      with 1(4) have "take 1 (drop filenameIndex p) = [p ! j]"
        by (simp add: Cons_nth_drop_Suc [symmetric])
      with False 1(5) show False by simp
    qed
    with 1 False show ?thesis by (subst splitext_loop.simps) simp
  qed
qed

lemma splitext_generic_ext:
  assumes x: "x \<noteq> CHR ''.''"
    and sep: "sep \<notin> set (x # r @ ''.'' @ e)"
    and alt: "case altsep of None \<Rightarrow> True | Some a \<Rightarrow> a \<notin> set (x # r @ ''.'' @ e)"
    and dot: "CHR ''.'' \<notin> set r" "CHR ''.'' \<notin> set e"
  shows "splitext_generic (q @ x # r @ ''.'' @ e) sep altsep = (q @ x # r, ''.'' @ e)"
proof -
  let ?p = "q @ x # r @ ''.'' @ e"
  let ?d = "length q + Suc (length r)"
  have p: "?p = (q @ x # r) @ ''.'' @ e" by simp
  have dotIndex: "rfind (CHR ''.'') ?p = int ?d"
    unfolding p using dot by (subst rfind_append) (simp add: Let_def rfind_notin)
  have s1: "rfind sep ?p = rfind sep q"
    using sep by (simp add: rfind_append)
  have s2: "altsep = Some a \<Longrightarrow> rfind a ?p = rfind a q" for a
    using alt by (simp add: rfind_append)
  define sepIndex where
    "sepIndex = (case altsep of None \<Rightarrow> rfind sep ?p | Some a \<Rightarrow> max (rfind sep ?p) (rfind a ?p))"
  have lo: "- 1 \<le> sepIndex" and hi: "sepIndex < int (length q)"
    unfolding sepIndex_def using s1 s2 rfind_lower [of sep q] rfind_upper [of sep q] rfind_upper
    by (auto split: option.splits simp: max_def)
  have loop: "splitext_loop ?p (nat (sepIndex + 1)) ?d = Some (take ?d ?p, drop ?d ?p)"
  proof (rule splitext_loop_finds [where j = "length q"])
    show "nat (sepIndex + 1) \<le> length q" using lo hi by linarith
    show "length q < ?d" by simp
    show "length q < length ?p" by simp
    show "?p ! length q \<noteq> CHR ''.''" using x by (simp add: nth_append)
  qed
  have "splitext_generic ?p sep altsep =
          (if sepIndex < int ?d then
             (case splitext_loop ?p (nat (sepIndex + 1)) (nat (int ?d)) of
                Some r \<Rightarrow> r
              | None \<Rightarrow> (?p, []))
           else (?p, []))"
    unfolding splitext_generic_def Let_def sepIndex_def dotIndex by (rule refl)
  also have "\<dots> = (take ?d ?p, drop ?d ?p)"
    using hi by (simp only: nat_int loop) simp
  finally have "splitext_generic ?p sep altsep = (take ?d ?p, drop ?d ?p)" .
  then show ?thesis by simp
qed

lemma get_ext_dds: "get_ext env (q @ ''_'' @ texture_name t @ ''.dds'') = ''.dds''"
proof -
  have "splitext_generic (q @ CHR ''_'' # texture_name t @ ''.'' @ ''dds'') sep altsep
        = (q @ CHR ''_'' # texture_name t, ''.'' @ ''dds'')"
    if "sep = CHR 0x5C \<or> sep = CHR ''/''" "altsep = None \<or> altsep = Some (CHR ''/'')" for sep altsep
    using that by (intro splitext_generic_ext) (cases t; auto)+
  then show ?thesis
    by (simp add: get_ext_def splitext_def lower_def lower_char_def)
qed

section \<open>Facts about the decoders and the loop\<close>

lemma read_dds_result:
  "snd (read_dds env s path) =
     (if get_ext env path \<noteq> ''.dds'' \<or> platform_system env \<noteq> ''Windows'' then Inr None
      else case texconv env path of Inl e \<Rightarrow> Inl e | Inr png \<Rightarrow> read_cv env png)"
  by (simp add: read_dds_def dds_to_png_texconv_def os_remove_def split: sum.splits)

lemma read_dds_trace: "trace (fst (read_dds env s path)) = trace s"
  by (simp add: read_dds_def dds_to_png_texconv_def os_remove_def split: sum.splits)

lemma decoders_result_indep:
  "(name, d) \<in> set (decoders env) \<Longrightarrow> snd (d s path) = snd (d s' path)"
  by (auto simp: decoders_def for_ext_def pure_decoder_def read_dds_result)

lemma decoders_trace:
  "(name, d) \<in> set (decoders env) \<Longrightarrow> trace (fst (d s path)) = trace s"
  by (auto simp: decoders_def for_ext_def pure_decoder_def read_dds_trace)

lemma no_raster_iff: "no_raster r \<longleftrightarrow> (\<forall>img. r \<noteq> Inr (Some img))"
  by (cases r rule: no_raster.cases) auto

lemma run_decoders_no_raster:
  assumes indep: "\<And>n d st st'. (n, d) \<in> set decs \<Longrightarrow> snd (d st path) = snd (d st' path)"
    and keep: "\<And>n d st. (n, d) \<in> set decs \<Longrightarrow> trace (fst (d st path)) = trace st"
    and none: "list_all no_raster (map (\<lambda>(n, d). snd (d s0 path)) decs)"
  shows "\<exists>s'. run_decoders decs path s None err =
           (s', None,
            case most_recent_error (map (\<lambda>(n, d). snd (d s0 path)) decs) of
              Some e \<Rightarrow> Some e
            | None \<Rightarrow> err)
         \<and> trace s' = trace s @ map (\<lambda>n. Decode n path) (map fst decs)"
  using assms
proof (induction decs arbitrary: s err)
  case Nil
  then show ?case by simp
next
  case (Cons nd decs)
  obtain n d where nd: "nd = (n, d)" by (cases nd)
  obtain s1 r where run: "d (log (Decode n path) s) path = (s1, r)"
    by (cases "d (log (Decode n path) s) path")
  have r: "snd (d s0 path) = r"
    using Cons.prems(1) [of n d "log (Decode n path) s" s0] run nd by simp
  have tr: "trace s1 = trace s @ [Decode n path]"
    using Cons.prems(2) [of n d "log (Decode n path) s"] run nd by (simp add: log_def)
  have nr: "no_raster r" using Cons.prems(3) nd r by simp
  have rest: "list_all no_raster (map (\<lambda>(n, d). snd (d s0 path)) decs)"
    using Cons.prems(3) by simp
  have IH: "\<exists>s'. run_decoders decs path s1 None err' =
           (s', None,
            case most_recent_error (map (\<lambda>(n, d). snd (d s0 path)) decs) of
              Some e \<Rightarrow> Some e
            | None \<Rightarrow> err')
         \<and> trace s' = trace s1 @ map (\<lambda>n. Decode n path) (map fst decs)" for err'
  proof (rule Cons.IH)
    show "snd (d st path) = snd (d st' path)" if "(n, d) \<in> set decs" for n d st st'
      using Cons.prems(1) [of n d st st'] that by simp
    show "trace (fst (d st path)) = trace st" if "(n, d) \<in> set decs" for n d st
      using Cons.prems(2) [of n d st] that by simp
  qed (rule rest)
  show ?case
  proof (cases r)
    case (Inl e)
    with IH [of "Some e"] run nd r tr show ?thesis
      by (auto split: option.splits)
  next
    case (Inr v)
    with nr have "v = None" by (cases v) auto
    with Inr IH [of err] run nd r tr show ?thesis
      by (auto split: option.splits)
  qed
qed

lemma run_decoders_first_raster:
  assumes indep: "\<And>n d st st'. (n, d) \<in> set decs \<Longrightarrow> snd (d st path) = snd (d st' path)"
    and keep: "\<And>n d st. (n, d) \<in> set decs \<Longrightarrow> trace (fst (d st path)) = trace st"
    and i: "i < length decs"
    and before: "\<And>j. j < i \<Longrightarrow> no_raster (map (\<lambda>(n, d). snd (d s0 path)) decs ! j)"
    and at: "map (\<lambda>(n, d). snd (d s0 path)) decs ! i = Inr (Some img)"
  shows "\<exists>s' e. run_decoders decs path s None err = (s', Some img, e)
         \<and> trace s' = trace s @ map (\<lambda>n. Decode n path) (take (Suc i) (map fst decs))"
  using assms
proof (induction decs arbitrary: s err i)
  case Nil
  then show ?case by simp
next
  case (Cons nd decs)
  obtain n d where nd: "nd = (n, d)" by (cases nd)
  obtain s1 r where run: "d (log (Decode n path) s) path = (s1, r)"
    by (cases "d (log (Decode n path) s) path")
  have r: "snd (d s0 path) = r"
    using Cons.prems(1) [of n d "log (Decode n path) s" s0] run nd by simp
  have tr: "trace s1 = trace s @ [Decode n path]"
    using Cons.prems(2) [of n d "log (Decode n path) s"] run nd by (simp add: log_def)
  show ?case
  proof (cases i)
    case 0
    with Cons.prems(5) nd r have "r = Inr (Some img)" by simp
    with run nd tr 0 show ?thesis by simp
  next
    case (Suc k)
    have nr: "no_raster r" using Cons.prems(4) [of 0] Suc nd r by simp
    have IH: "\<exists>s' e. run_decoders decs path s1 None err' = (s', Some img, e)
         \<and> trace s' = trace s1 @ map (\<lambda>n. Decode n path) (take (Suc k) (map fst decs))" for err'
    proof (rule Cons.IH)
      show "k < length decs" using Cons.prems(3) Suc by simp
      show "no_raster (map (\<lambda>(n, d). snd (d s0 path)) decs ! j)" if "j < k" for j
        using Cons.prems(4) [of "Suc j"] that Suc by simp
      show "map (\<lambda>(n, d). snd (d s0 path)) decs ! k = Inr (Some img)"
        using Cons.prems(5) Suc by simp
      show "snd (d st path) = snd (d st' path)" if "(n, d) \<in> set decs" for n d st st'
        using Cons.prems(1) [of n d st st'] that by simp
      show "trace (fst (d st path)) = trace st" if "(n, d) \<in> set decs" for n d st
        using Cons.prems(2) [of n d st] that by simp
    qed
    show ?thesis
    proof (cases r)
      case (Inl e)
      with IH [of "Some e"] run nd tr Suc show ?thesis by auto
    next
      case (Inr v)
      with nr have "v = None" by (cases v) auto
      with Inr IH [of err] run nd tr Suc show ?thesis by auto
    qed
  qed
qed

lemma decoders_names: "map fst (decoders env) = [''pil-jpeg'', ''cv'', ''texconv-dds'', ''pil'']"
  by (simp add: decoders_def)

lemma results_length: "length (results env s path) = 4"
  by (simp add: results_def decoders_def)

lemma chain_no_raster:
  assumes "list_all no_raster (results env s0 path)"
  shows "\<exists>s'. run_decoders (decoders env) path s None err =
           (s', None, case most_recent_error (results env s0 path) of Some e \<Rightarrow> Some e | None \<Rightarrow> err)
         \<and> trace s' = trace s @ map (\<lambda>n. Decode n path) [''pil-jpeg'', ''cv'', ''texconv-dds'', ''pil'']"
proof -
  have "\<exists>s'. run_decoders (decoders env) path s None err =
           (s', None,
            case most_recent_error (map (\<lambda>(n, d). snd (d s0 path)) (decoders env)) of
              Some e \<Rightarrow> Some e
            | None \<Rightarrow> err)
         \<and> trace s' = trace s @ map (\<lambda>n. Decode n path) (map fst (decoders env))"
  proof (rule run_decoders_no_raster)
    show "snd (d st path) = snd (d st' path)" if "(n, d) \<in> set (decoders env)" for n d st st'
      using that by (rule decoders_result_indep)
    show "trace (fst (d st path)) = trace st" if "(n, d) \<in> set (decoders env)" for n d st
      using that by (rule decoders_trace)
    show "list_all no_raster (map (\<lambda>(n, d). snd (d s0 path)) (decoders env))"
      using assms by (simp add: results_def)
  qed
  then show ?thesis 
    unfolding decoders_names results_def .
qed

lemma chain_first_raster:
  assumes "i < 4" "\<And>j. j < i \<Longrightarrow> no_raster (results env s0 path ! j)"
    "results env s0 path ! i = Inr (Some img)"
  shows "\<exists>s' e. run_decoders (decoders env) path s None err = (s', Some img, e)
         \<and> trace s' = trace s @ map (\<lambda>n. Decode n path) (take (Suc i) [''pil-jpeg'', ''cv'', ''texconv-dds'', ''pil''])"
proof -
  have "\<exists>s' e. run_decoders (decoders env) path s None err = (s', Some img, e)
         \<and> trace s' = trace s @ map (\<lambda>n. Decode n path) (take (Suc i) (map fst (decoders env)))"
  proof (rule run_decoders_first_raster)
    show "snd (d st path) = snd (d st' path)" if "(n, d) \<in> set (decoders env)" for n d st st'
      using that by (rule decoders_result_indep)
    show "trace (fst (d st path)) = trace st" if "(n, d) \<in> set (decoders env)" for n d st
      using that by (rule decoders_trace)
    show "i < length (decoders env)" using assms(1) by (simp add: decoders_def)
    show "no_raster (map (\<lambda>(n, d). snd (d s0 path)) (decoders env) ! j)" if "j < i" for j
      using assms(2) [OF that] by (simp add: results_def)
    show "map (\<lambda>(n, d). snd (d s0 path)) (decoders env) ! i = Inr (Some img)"
      using assms(3) by (simp add: results_def)
  qed
  then show ?thesis unfolding decoders_names .
qed

lemma run_decoders_trace:
  assumes keep: "\<And>n d st. (n, d) \<in> set decs \<Longrightarrow> trace (fst (d st path)) = trace st"
  shows "\<exists>k. k \<le> length decs \<and> (decs = [] \<or> 0 < k) \<and>
           trace (fst (run_decoders decs path s img err)) =
           trace s @ map (\<lambda>n. Decode n path) (take k (map fst decs))"
  using assms
proof (induction decs arbitrary: s img err)
  case Nil
  then show ?case by simp
next
  case (Cons nd decs)
  obtain n d where nd: "nd = (n, d)" by (cases nd)
  obtain s1 r where run: "d (log (Decode n path) s) path = (s1, r)"
    by (cases "d (log (Decode n path) s) path")
  have tr: "trace s1 = trace s @ [Decode n path]"
    using Cons.prems [of n d "log (Decode n path) s"] run nd by (simp add: log_def)
  have IH: "\<exists>k. k \<le> length decs \<and> (decs = [] \<or> 0 < k) \<and>
           trace (fst (run_decoders decs path s1 img' err')) =
           trace s1 @ map (\<lambda>n. Decode n path) (take k (map fst decs))" for img' err'
  proof (rule Cons.IH)
    show "trace (fst (d st path)) = trace st" if "(n, d) \<in> set decs" for n d st
      using Cons.prems [of n d st] that by simp
  qed
  have stop: "\<exists>k. k \<le> length (nd # decs) \<and> (nd # decs = [] \<or> 0 < k) \<and>
           trace s1 = trace s @ map (\<lambda>n. Decode n path) (take k (map fst (nd # decs)))"
    using tr nd by (intro exI [of _ 1]) simp
  have go: "\<exists>k. k \<le> length (nd # decs) \<and> (nd # decs = [] \<or> 0 < k) \<and>
           trace (fst (run_decoders decs path s1 img' err')) =
           trace s @ map (\<lambda>n. Decode n path) (take k (map fst (nd # decs)))" for img' err'
  proof -
    from IH [of img' err'] obtain k where k: "k \<le> length decs"
      "trace (fst (run_decoders decs path s1 img' err')) =
           trace s1 @ map (\<lambda>n. Decode n path) (take k (map fst decs))" by blast
    then show ?thesis using tr nd by (intro exI [of _ "Suc k"]) simp
  qed
  show ?case
    using stop go run nd by (cases r) (auto split: if_splits)
qed

lemma chain_trace:
  "\<exists>k. 0 < k \<and> k \<le> 4 \<and>
     trace (fst (run_decoders (decoders env) path s img err)) =
     trace s @ map (\<lambda>n. Decode n path) (take k [''pil-jpeg'', ''cv'', ''texconv-dds'', ''pil''])"
proof -
  have "\<exists>k. k \<le> length (decoders env) \<and> (decoders env = [] \<or> 0 < k) \<and>
           trace (fst (run_decoders (decoders env) path s img err)) =
           trace s @ map (\<lambda>n. Decode n path) (take k (map fst (decoders env)))"
  proof (rule run_decoders_trace)
    show "trace (fst (d st path)) = trace st" if "(n, d) \<in> set (decoders env)" for n d st
      using that by (rule decoders_trace)
  qed
  then obtain k where "k \<le> length (decoders env)" "decoders env = [] \<or> 0 < k"
    "trace (fst (run_decoders (decoders env) path s img err)) =
           trace s @ map (\<lambda>n. Decode n path) (take k (map fst (decoders env)))" by blast
  moreover have "length (decoders env) = 4" "decoders env \<noteq> []" by (simp_all add: decoders_def)
  ultimately show ?thesis unfolding decoders_names by auto
qed

lemma run_decoders_raster:
  assumes indep: "\<And>n d st st'. (n, d) \<in> set decs \<Longrightarrow> snd (d st path) = snd (d st' path)"
    and run: "run_decoders decs path s None err = (s', Some img, e)"
  shows "\<exists>i < length decs. map (\<lambda>(n, d). snd (d s0 path)) decs ! i = Inr (Some img) \<and>
           (\<forall>j < i. no_raster (map (\<lambda>(n, d). snd (d s0 path)) decs ! j))"
  using assms
proof (induction decs arbitrary: s err)
  case Nil
  then show ?case by simp
next
  case (Cons nd decs)
  obtain n d where nd: "nd = (n, d)" by (cases nd)
  obtain s1 r where run: "d (log (Decode n path) s) path = (s1, r)"
    by (cases "d (log (Decode n path) s) path")
  have r: "snd (d s0 path) = r"
    using Cons.prems(1) [of n d "log (Decode n path) s" s0] run nd by simp
  have IH: "\<exists>i < length decs. map (\<lambda>(n, d). snd (d s0 path)) decs ! i = Inr (Some img) \<and>
           (\<forall>j < i. no_raster (map (\<lambda>(n, d). snd (d s0 path)) decs ! j))"
    if "run_decoders decs path s1 None err' = (s', Some img, e)" for err'
  proof (rule Cons.IH)
    show "snd (d st path) = snd (d st' path)" if "(n, d) \<in> set decs" for n d st st'
      using Cons.prems(1) [of n d st st'] that by simp
  qed (rule that)
  have step: ?case if nr: "no_raster r" and rec: "run_decoders decs path s1 None err' = (s', Some img, e)" for err'
  proof -
    from IH [OF rec] obtain i where i: "i < length decs"
      "map (\<lambda>(n, d). snd (d s0 path)) decs ! i = Inr (Some img)"
      "\<forall>j < i. no_raster (map (\<lambda>(n, d). snd (d s0 path)) decs ! j)" by blast
    have "\<forall>j < Suc i. no_raster (map (\<lambda>(n, d). snd (d s0 path)) (nd # decs) ! j)"
    proof (intro allI impI)
      fix j assume "j < Suc i"
      then show "no_raster (map (\<lambda>(n, d). snd (d s0 path)) (nd # decs) ! j)"
        using i(3) nr r nd by (cases j) auto
    qed
    with i show ?thesis by (intro exI [of _ "Suc i"]) (simp add: nd)
  qed
  show ?case
  proof (cases r)
    case (Inl x)
    with Cons.prems(2) run nd have "run_decoders decs path s1 None (Some x) = (s', Some img, e)"
      by simp
    with step [of "Some x"] Inl show ?thesis by simp
  next
    case (Inr v)
    show ?thesis
    proof (cases v)
      case None
      with Inr Cons.prems(2) run nd have "run_decoders decs path s1 None err = (s', Some img, e)"
        by simp
      with step [of err] Inr None show ?thesis by simp
    next
      case (Some i)
      with Inr Cons.prems(2) run nd have "i = img" by simp
      with Some Inr r nd show ?thesis by (intro exI [of _ 0]) simp
    qed
  qed
qed

lemma chain_raster:
  assumes "run_decoders (decoders env) path s None err = (s', Some img, e)"
  shows "\<exists>i < 4. results env s0 path ! i = Inr (Some img) \<and>
           (\<forall>j < i. no_raster (results env s0 path ! j))"
proof -
  have "\<exists>i < length (decoders env). map (\<lambda>(n, d). snd (d s0 path)) (decoders env) ! i = Inr (Some img) \<and>
           (\<forall>j < i. no_raster (map (\<lambda>(n, d). snd (d s0 path)) (decoders env) ! j))"
  proof (rule run_decoders_raster)
    show "snd (d st path) = snd (d st' path)" if "(n, d) \<in> set (decoders env)" for n d st st'
      using that by (rule decoders_result_indep)
  qed (rule assms)
  moreover have "length (decoders env) = 4" by (simp add: decoders_def)
  ultimately show ?thesis unfolding results_def by simp
qed

section \<open>Facts about the load operation\<close>

lemma load_direct:
  assumes "\<not> endswith root ''units.scd''"
  shows "load_image_node env s root unit tex target =
     (case run_decoders (decoders env)
             (removesuffix root bs @ bs @ unit @ bs @ unit @ ''_'' @ texture_name tex @ ''.dds'')
             s None None of
        (s3, img, err) \<Rightarrow>
          (s3,
           case img of
             None \<Rightarrow>
               (case err of
                  Some e \<Rightarrow> Inl e
                | None \<Rightarrow>
                    Inl (RuntimeError (unreadable_msg
                      (removesuffix root bs @ bs @ unit @ bs @ unit @ ''_'' @ texture_name tex @ ''.dds''))))
           | Some i \<Rightarrow> Inr (i, root, unit, unit @ ''_'' @ texture_name tex, target)))"
  using assms by (simp add: load_image_node_def Let_def split: prod.splits option.splits)

lemma load_archive_failed:
  assumes "endswith root ''units.scd''"
    and "zip_extract env root (''units/'' @ unit @ ''/'' @ unit @ ''_'' @ texture_name tex @ ''.dds'')
           (tempname env ''chaiNNerSCD-'' (fs s)) (fst (mkdtemp env ''chaiNNerSCD-'' s)) = (s2, Inl e)"
  shows "load_image_node env s root unit tex target = (s2, Inl e)"
  using assms by (simp add: load_image_node_def Let_def mkdtemp_def split: prod.splits)

lemma load_archive_staged:
  assumes "endswith root ''units.scd''"
    and "zip_extract env root (''units/'' @ unit @ ''/'' @ unit @ ''_'' @ texture_name tex @ ''.dds'')
           (tempname env ''chaiNNerSCD-'' (fs s)) (fst (mkdtemp env ''chaiNNerSCD-'' s)) = (s2, Inr u)"
  shows "load_image_node env s root unit tex target =
     (case run_decoders (decoders env)
             (tempname env ''chaiNNerSCD-'' (fs s) @ bs @ ''units'' @ bs @ unit @ bs @ unit @ ''_'' @
              texture_name tex @ ''.dds'')
             s2 None None of
        (s3, img, err) \<Rightarrow>
          (rmtree (tempname env ''chaiNNerSCD-'' (fs s)) s3,
           case img of
             None \<Rightarrow>
               (case err of
                  Some e \<Rightarrow> Inl e
                | None \<Rightarrow>
                    Inl (RuntimeError (unreadable_msg
                      (tempname env ''chaiNNerSCD-'' (fs s) @ bs @ ''units'' @ bs @ unit @ bs @ unit @
                       ''_'' @ texture_name tex @ ''.dds''))))
           | Some i \<Rightarrow> Inr (i, root, unit, unit @ ''_'' @ texture_name tex, target)))"
  using assms by (simp add: load_image_node_def Let_def mkdtemp_def split: prod.splits option.splits)

lemma zip_extract_trace:
  "trace (fst (zip_extract env archive member dest s)) = trace s @ [ZipExtract archive member dest]"
  by (simp add: zip_extract_def Let_def log_def split: option.splits)

lemma mkdtemp_trace:
  "trace (fst (mkdtemp env pfx s)) = trace s @ [Mkdtemp (tempname env pfx (fs s))]"
  by (simp add: mkdtemp_def Let_def log_def)

lemma rmtree_trace: "trace (rmtree d s) = trace s @ [Rmtree d]"
  by (simp add: rmtree_def log_def)

lemma rmtree_gone: "p \<in> fs (rmtree d s) \<Longrightarrow> \<not> below d p"
  by (simp add: rmtree_def log_def)

lemma invoked_append: "trace s' = trace s @ es \<Longrightarrow> invoked s s' = es"
  by (simp add: invoked_def)

lemma archive_cleanup_after_decoding:
  assumes "endswith root ''units.scd''"
    and "zip_extract env root (''units/'' @ unit @ ''/'' @ unit @ ''_'' @ texture_name tex @ ''.dds'')
           (tempname env ''chaiNNerSCD-'' (fs s)) (fst (mkdtemp env ''chaiNNerSCD-'' s)) = (s2, Inr u)"
    and "p \<in> fs (fst (load_image_node env s root unit tex target))"
  shows "\<not> below (tempname env ''chaiNNerSCD-'' (fs s)) p"
  using assms(3) unfolding load_archive_staged [OF assms(1,2)]
  by (auto split: prod.splits dest: rmtree_gone)

lemma load_direct_trace:
  assumes "\<not> endswith root ''units.scd''"
  shows "\<exists>k. 0 < k \<and> k \<le> 4 \<and>
     invoked s (fst (load_image_node env s root unit tex target)) =
     map (\<lambda>n. Decode n
            (removesuffix root bs @ bs @ unit @ bs @ unit @ ''_'' @ texture_name tex @ ''.dds''))
         (take k [''pil-jpeg'', ''cv'', ''texconv-dds'', ''pil''])"
proof -
  let ?P = "removesuffix root bs @ bs @ unit @ bs @ unit @ ''_'' @ texture_name tex @ ''.dds''"
  obtain k where k: "0 < k" "k \<le> 4"
    "trace (fst (run_decoders (decoders env) ?P s None None)) =
     trace s @ map (\<lambda>n. Decode n ?P) (take k [''pil-jpeg'', ''cv'', ''texconv-dds'', ''pil''])"
    using chain_trace [of env ?P s None None] by blast
  have "fst (load_image_node env s root unit tex target) =
        fst (run_decoders (decoders env) ?P s None None)"
    unfolding load_direct [OF assms] by (simp split: prod.splits)
  with k show ?thesis by (intro exI [of _ k]) (simp add: invoked_def)
qed

lemma load_archive_trace:
  assumes "endswith root ''units.scd''"
  shows "\<exists>rest.
     invoked s (fst (load_image_node env s root unit tex target)) =
       Mkdtemp (tempname env ''chaiNNerSCD-'' (fs s)) #
       ZipExtract root (''units/'' @ unit @ ''/'' @ unit @ ''_'' @ texture_name tex @ ''.dds'')
         (tempname env ''chaiNNerSCD-'' (fs s)) # rest \<and>
     (rest = [] \<or>
      (\<exists>k. 0 < k \<and> k \<le> 4 \<and>
         rest =
           map (\<lambda>n. Decode n
                  (tempname env ''chaiNNerSCD-'' (fs s) @ bs @ ''units'' @ bs @ unit @ bs @ unit @
                   ''_'' @ texture_name tex @ ''.dds''))
               (take k [''pil-jpeg'', ''cv'', ''texconv-dds'', ''pil'']) @
           [Rmtree (tempname env ''chaiNNerSCD-'' (fs s))]))"
proof -
  let ?d = "tempname env ''chaiNNerSCD-'' (fs s)"
  let ?m = "''units/'' @ unit @ ''/'' @ unit @ ''_'' @ texture_name tex @ ''.dds''"
  let ?P = "?d @ bs @ ''units'' @ bs @ unit @ bs @ unit @ ''_'' @ texture_name tex @ ''.dds''"
  obtain s2 r where z: "zip_extract env root ?m ?d (fst (mkdtemp env ''chaiNNerSCD-'' s)) = (s2, r)"
    by (cases "zip_extract env root ?m ?d (fst (mkdtemp env ''chaiNNerSCD-'' s))")
  have s2: "trace s2 = trace s @ [Mkdtemp ?d, ZipExtract root ?m ?d]"
    using zip_extract_trace [of env root ?m ?d "fst (mkdtemp env ''chaiNNerSCD-'' s)"] z
    by (simp add: mkdtemp_trace)
  show ?thesis
  proof (cases r)
    case (Inl e)
    then have "fst (load_image_node env s root unit tex target) = s2"
      using load_archive_failed [OF assms] z by simp
    with s2 show ?thesis by (simp add: invoked_def)
  next
    case (Inr u)
    obtain k where k: "0 < k" "k \<le> 4"
      "trace (fst (run_decoders (decoders env) ?P s2 None None)) =
       trace s2 @ map (\<lambda>n. Decode n ?P) (take k [''pil-jpeg'', ''cv'', ''texconv-dds'', ''pil''])"
      using chain_trace [of env ?P s2 None None] by blast
    have "fst (load_image_node env s root unit tex target) =
          rmtree ?d (fst (run_decoders (decoders env) ?P s2 None None))"
      unfolding load_archive_staged [OF assms z [unfolded Inr]] by (simp split: prod.splits)
    with k s2 have "invoked s (fst (load_image_node env s root unit tex target)) =
       Mkdtemp ?d # ZipExtract root ?m ?d #
       (map (\<lambda>n. Decode n ?P) (take k [''pil-jpeg'', ''cv'', ''texconv-dds'', ''pil'']) @ [Rmtree ?d])"
      by (simp add: invoked_def rmtree_trace)
    with k(1,2) show ?thesis by blast
  qed
qed

lemma load_chain:
  assumes "Decode name path \<in> set (invoked s (fst (load_image_node env s root unit tex target)))"
  shows "\<exists>s2 s3 img err.
     run_decoders (decoders env) path s2 None None = (s3, img, err) \<and>
     snd (load_image_node env s root unit tex target) =
       (case img of
          None \<Rightarrow>
            (case err of
               Some e \<Rightarrow> Inl e
             | None \<Rightarrow> Inl (RuntimeError (unreadable_msg path)))
        | Some i \<Rightarrow> Inr (i, root, unit, unit @ ''_'' @ texture_name tex, target))"
proof (cases "endswith root ''units.scd''")
  case False
  let ?P = "removesuffix root bs @ bs @ unit @ bs @ unit @ ''_'' @ texture_name tex @ ''.dds''"
  from load_direct_trace [OF False, of s env unit tex target] assms
  have path: "path = ?P" by auto
  obtain s3 img err where run: "run_decoders (decoders env) ?P s None None = (s3, img, err)"
    by (cases "run_decoders (decoders env) ?P s None None")
  show ?thesis
    unfolding load_direct [OF False] path using run by auto
next
  case True
  let ?d = "tempname env ''chaiNNerSCD-'' (fs s)"
  let ?m = "''units/'' @ unit @ ''/'' @ unit @ ''_'' @ texture_name tex @ ''.dds''"
  let ?P = "?d @ bs @ ''units'' @ bs @ unit @ bs @ unit @ ''_'' @ texture_name tex @ ''.dds''"
  from load_archive_trace [OF True, of s env unit tex target] assms
  have path: "path = ?P" by auto
  obtain s2 r where z: "zip_extract env root ?m ?d (fst (mkdtemp env ''chaiNNerSCD-'' s)) = (s2, r)"
    by (cases "zip_extract env root ?m ?d (fst (mkdtemp env ''chaiNNerSCD-'' s))")
  have s2: "trace s2 = trace s @ [Mkdtemp ?d, ZipExtract root ?m ?d]"
    using zip_extract_trace [of env root ?m ?d "fst (mkdtemp env ''chaiNNerSCD-'' s)"] z
    by (simp add: mkdtemp_trace)
  show ?thesis
  proof (cases r)
    case (Inl e)
    then have "fst (load_image_node env s root unit tex target) = s2"
      using load_archive_failed [OF True] z by simp
    with s2 assms show ?thesis by (simp add: invoked_def)
  next
    case (Inr u)
    obtain s3 img err where run: "run_decoders (decoders env) ?P s2 None None = (s3, img, err)"
      by (cases "run_decoders (decoders env) ?P s2 None None")
    show ?thesis
      unfolding load_archive_staged [OF True z [unfolded Inr]] path using run by auto
  qed
qed

lemma endswith_single: "endswith s [c] \<longleftrightarrow> s \<noteq> [] \<and> last s = c"
proof (cases s rule: rev_cases)
  case Nil
  then show ?thesis by (simp add: endswith_def)
next
  case (snoc ys y)
  then show ?thesis by (auto simp: endswith_def)
qed

lemma removesuffix_single:
  "removesuffix s [c] = (if s \<noteq> [] \<and> last s = c then butlast s else s)"
  by (simp add: removesuffix_def endswith_single butlast_conv_take)

lemma endswith_append_single: "endswith (r @ [c]) suf \<Longrightarrow> suf \<noteq> [] \<Longrightarrow> last suf = c"
  by (cases suf rule: rev_cases) (auto simp: endswith_def)

lemma texture_path_dds: "endswith (q @ ''_'' @ texture_name t @ ''.dds'') ''.dds''"
  by (simp add: endswith_def)

lemma RGB2BGR_length: "length (RGB2BGR xs) = length xs"
  by (induction xs rule: RGB2BGR.induct) auto

lemma RGBA2BGRA_length: "length (RGBA2BGRA xs) = length xs"
  by (induction xs rule: RGBA2BGRA.induct) auto

lemma RGB2BGR_pixel:
  "3 * i + 2 < length xs \<Longrightarrow>
     RGB2BGR xs ! (3 * i) = xs ! (3 * i + 2) \<and>
     RGB2BGR xs ! (3 * i + 1) = xs ! (3 * i + 1) \<and>
     RGB2BGR xs ! (3 * i + 2) = xs ! (3 * i)"
proof (induction xs arbitrary: i rule: RGB2BGR.induct)
  case (1 r g b rest)
  show ?case
  proof (cases i)
    case 0
    then show ?thesis by simp
  next
    case (Suc k)
    with 1 have "3 * k + 2 < length rest" by simp
    from 1(1) [OF this] Suc show ?thesis by simp
  qed
qed simp_all

lemma RGBA2BGRA_pixel:
  "4 * i + 3 < length xs \<Longrightarrow>
     RGBA2BGRA xs ! (4 * i) = xs ! (4 * i + 2) \<and>
     RGBA2BGRA xs ! (4 * i + 1) = xs ! (4 * i + 1) \<and>
     RGBA2BGRA xs ! (4 * i + 2) = xs ! (4 * i) \<and>
     RGBA2BGRA xs ! (4 * i + 3) = xs ! (4 * i + 3)"
proof (induction xs arbitrary: i rule: RGBA2BGRA.induct)
  case (1 r g b a rest)
  show ?case
  proof (cases i)
    case 0
    then show ?thesis by simp
  next
    case (Suc k)
    with 1 have "4 * k + 3 < length rest" by simp
    from 1(1) [OF this] Suc show ?thesis by (simp add: add.commute)
  qed
qed simp_all

lemma load_working_path:
  assumes "Decode name path \<in> set (invoked s (fst (load_image_node env s root unit tex target)))"
  shows "\<exists>q. path = q @ ''_'' @ texture_name tex @ ''.dds''"
proof (cases "endswith root ''units.scd''")
  case False
  from load_direct_trace [OF False, of s env unit tex target] assms
  have "path = (removesuffix root bs @ bs @ unit @ bs @ unit) @ ''_'' @ texture_name tex @ ''.dds''"
    by auto
  then show ?thesis by blast
next
  case True
  from load_archive_trace [OF True, of s env unit tex target] assms
  have "path = (tempname env ''chaiNNerSCD-'' (fs s) @ bs @ ''units'' @ bs @ unit @ bs @ unit) @
          ''_'' @ texture_name tex @ ''.dds''"
    by auto
  then show ?thesis by blast
qed

section \<open>Properties\<close>

text \<open>
  C1 (fails on the code): in archive mode the temporary directory is to be gone on every exit
  path. The archive of the sample machine has no \<open>SpecTeam\<close> texture: the extraction raises
  \<open>KeyError\<close>, the call ends there, and the directory made before is still on disk.
\<close>

theorem missing_entry_leaves_tempdir:
  "load_image_node windows empty_disk scd ''UEB0301'' SpecTeam ''out'' =
     (\<lparr>fs = {tempdir0},
       trace = [Mkdtemp tempdir0, ZipExtract scd ''units/UEB0301/UEB0301_SpecTeam.dds'' tempdir0]\<rparr>,
      Inl (KeyError ''units/UEB0301/UEB0301_SpecTeam.dds''))"
  by (simp add: load_image_node_def Let_def endswith_def scd_def mkdtemp_def windows_def
      empty_disk_def zip_extract_def log_def tempdir0_def)

text \<open>
  C7: a load that succeeds returns the raster with the root path as the caller gave it, the
  unit name, the file name without extension, which is the unit name, an underscore and the
  suffix \<open>Albedo\<close>, \<open>SpecTeam\<close> or \<open>normalsTS\<close> of the texture kind, and the target directory
  as given; this holds in archive mode too, where the working path is the staged file.
\<close>

theorem load_returns_inputs:
  assumes "snd (load_image_node env s root unit tex target) = Inr (img, a, b, c, d)"
  shows "a = root \<and> b = unit \<and> d = target \<and>
         c = unit @ ''_'' @
             (case tex of Albedo \<Rightarrow> ''Albedo'' | SpecTeam \<Rightarrow> ''SpecTeam'' | normalsTS \<Rightarrow> ''normalsTS'')"
proof -
  have name: "texture_name tex =
      (case tex of Albedo \<Rightarrow> ''Albedo'' | SpecTeam \<Rightarrow> ''SpecTeam'' | normalsTS \<Rightarrow> ''normalsTS'')"
    by (cases tex) simp_all
  have "a = root \<and> b = unit \<and> d = target \<and> c = unit @ ''_'' @ texture_name tex"
  proof (cases "endswith root ''units.scd''")
    case False
    show ?thesis
      using assms unfolding load_direct [OF False]
      by (auto split: prod.splits option.splits)
  next
    case True
    obtain s2 r where z:
      "zip_extract env root (''units/'' @ unit @ ''/'' @ unit @ ''_'' @ texture_name tex @ ''.dds'')
         (tempname env ''chaiNNerSCD-'' (fs s)) (fst (mkdtemp env ''chaiNNerSCD-'' s)) = (s2, r)"
      by (cases "zip_extract env root (''units/'' @ unit @ ''/'' @ unit @ ''_'' @ texture_name tex @ ''.dds'')
         (tempname env ''chaiNNerSCD-'' (fs s)) (fst (mkdtemp env ''chaiNNerSCD-'' s))")
    show ?thesis
    proof (cases r)
      case (Inl e)
      with assms load_archive_failed [OF True] z show ?thesis by simp
    next
      case (Inr u)
      show ?thesis
        using assms unfolding load_archive_staged [OF True z [unfolded Inr]]
        by (auto split: prod.splits option.splits)
    qed
  qed
  then show ?thesis by (simp only: name)
qed

theorem load_returns_inputs_witness:
  "endswith scd ''units.scd'' \<and>
   snd (load_image_node windows empty_disk scd ''UEB0301'' Albedo ''out'') =
     Inr (other_image, scd, ''UEB0301'', ''UEB0301_Albedo'', ''out'')"
proof -
  have h: "snd (load_image_node windows empty_disk scd ''UEB0301'' Albedo ''out'') =
     Inr (other_image, scd, ''UEB0301'', ''UEB0301_Albedo'', ''out'')"
    by code_simp
  have e: "endswith scd ''units.scd''" by code_simp
  from load_returns_inputs [OF h] e h show ?thesis by blast
qed

text \<open>
  C2: when the chain is run on a path at which every decoder gives nothing or raises, the
  load raises: the exception raised last, if a decoder raised one, and otherwise the
  \<open>RuntimeError\<close> whose message quotes the path between \<open>The image\<close> and \<open>you are trying
  to read cannot be read by chaiNNer.\<close> It never returns a tuple without a raster.
\<close>

theorem no_raster_raises:
  assumes "Decode name path \<in> set (invoked s (fst (load_image_node env s root unit tex target)))"
    and "list_all no_raster (results env s path)"
  shows "snd (load_image_node env s root unit tex target) =
           Inl (case most_recent_error (results env s path) of
                  Some e \<Rightarrow> e
                | None \<Rightarrow>
                    RuntimeError
                      (''The image '' @ dq @ path @ dq @
                       '' you are trying to read cannot be read by chaiNNer.''))"
proof -
  from load_chain [OF assms(1)] obtain s2 s3 img err where
    run: "run_decoders (decoders env) path s2 None None = (s3, img, err)" and
    out: "snd (load_image_node env s root unit tex target) =
       (case img of
          None \<Rightarrow>
            (case err of
               Some e \<Rightarrow> Inl e
             | None \<Rightarrow> Inl (RuntimeError (unreadable_msg path)))
        | Some i \<Rightarrow> Inr (i, root, unit, unit @ ''_'' @ texture_name tex, target))"
    by blast
  from chain_no_raster [OF assms(2), of s2 None] run
  have "img = None" "err = most_recent_error (results env s path)"
    by (auto split: option.splits)
  with out show ?thesis by (simp add: unreadable_msg_def split: option.splits)
qed

theorem no_raster_raises_witness:
  "Decode ''pil'' (units_dir @ bs @ ''UEB0301'' @ bs @ ''UEB0301_SpecTeam.dds'')
     \<in> set (invoked empty_disk
              (fst (load_image_node windows empty_disk (units_dir @ bs) ''UEB0301'' SpecTeam '''')))
   \<and> results windows empty_disk (units_dir @ bs @ ''UEB0301'' @ bs @ ''UEB0301_SpecTeam.dds'') =
       [Inr None, Inr None, Inl (LibraryError ''Unable to convert DDS''),
        Inl (LibraryError ''cannot identify image file'')]
   \<and> snd (load_image_node windows empty_disk (units_dir @ bs) ''UEB0301'' SpecTeam '''') =
       Inl (LibraryError ''cannot identify image file'')
   \<and> Decode ''pil'' (units_dir @ bs @ ''UEB0301'' @ bs @ ''UEB0301_SpecTeam.dds'')
     \<in> set (invoked empty_disk
              (fst (load_image_node linux empty_disk (units_dir @ bs) ''UEB0301'' SpecTeam '''')))
   \<and> results linux empty_disk (units_dir @ bs @ ''UEB0301'' @ bs @ ''UEB0301_SpecTeam.dds'') =
       [Inr None, Inr None, Inr None, Inr None]
   \<and> snd (load_image_node linux empty_disk (units_dir @ bs) ''UEB0301'' SpecTeam '''') =
       Inl (RuntimeError
             (''The image '' @ dq @
              (units_dir @ bs @ ''UEB0301'' @ bs @ ''UEB0301_SpecTeam.dds'') @ dq @
              '' you are trying to read cannot be read by chaiNNer.''))"
proof -
  let ?P = "units_dir @ bs @ ''UEB0301'' @ bs @ ''UEB0301_SpecTeam.dds''"
  have d: "Decode ''pil'' ?P
     \<in> set (invoked empty_disk
              (fst (load_image_node windows empty_disk (units_dir @ bs) ''UEB0301'' SpecTeam '''')))"
    by code_simp
  have r: "results windows empty_disk ?P =
       [Inr None, Inr None, Inl (LibraryError ''Unable to convert DDS''),
        Inl (LibraryError ''cannot identify image file'')]"
    by code_simp
  have n: "list_all no_raster (results windows empty_disk ?P)"
    unfolding r by simp
  have m: "most_recent_error
       [Inr None, Inr None, Inl (LibraryError ''Unable to convert DDS''),
        Inl (LibraryError ''cannot identify image file'')] =
       Some (LibraryError ''cannot identify image file'')"
    by simp
  from no_raster_raises [OF d n]
  have w: "snd (load_image_node windows empty_disk (units_dir @ bs) ''UEB0301'' SpecTeam '''') =
       Inl (LibraryError ''cannot identify image file'')"
    unfolding r m by simp
  have d': "Decode ''pil'' ?P
     \<in> set (invoked empty_disk
              (fst (load_image_node linux empty_disk (units_dir @ bs) ''UEB0301'' SpecTeam '''')))"
    by code_simp
  have r': "results linux empty_disk ?P = [Inr None, Inr None, Inr None, Inr None]"
    by code_simp
  have n': "list_all no_raster (results linux empty_disk ?P)"
    unfolding r' by simp
  have m': "most_recent_error [Inr None, Inr None, Inr None, Inr None] = None"
    by simp
  from no_raster_raises [OF d' n']
  have l: "snd (load_image_node linux empty_disk (units_dir @ bs) ''UEB0301'' SpecTeam '''') =
       Inl (RuntimeError
             (''The image '' @ dq @
              (units_dir @ bs @ ''UEB0301'' @ bs @ ''UEB0301_SpecTeam.dds'') @ dq @
              '' you are trying to read cannot be read by chaiNNer.''))"
    unfolding r' m' by simp
  from d r w d' r' l show ?thesis by blast
qed

text \<open>
  C3: the chain calls its decoders in the order \<open>pil-jpeg\<close>, \<open>cv\<close>, \<open>texconv-dds\<close>, \<open>pil\<close>.
  It goes on past every decoder that gives nothing or raises, and the first decoder that
  gives a raster ends it: the raster is the chain's, and no decoder after that one is called.
  A raster of the first decoder is therefore the chain's, whatever the others would give.
\<close>

theorem first_raster_ends_chain:
  assumes "i < 4"
    and "\<forall>j < i. no_raster (results env s path ! j)"
    and "results env s path ! i = Inr (Some img)"
  shows "map fst (decoders env) = [''pil-jpeg'', ''cv'', ''texconv-dds'', ''pil''] \<and>
         (\<exists>s' e. run_decoders (decoders env) path s None None = (s', Some img, e) \<and>
            invoked s s' =
              map (\<lambda>n. Decode n path) (take (Suc i) [''pil-jpeg'', ''cv'', ''texconv-dds'', ''pil'']))"
proof -
  from chain_first_raster [of i env s path img s None] assms
  obtain s' e where "run_decoders (decoders env) path s None None = (s', Some img, e)"
    "trace s' = trace s @
       map (\<lambda>n. Decode n path) (take (Suc i) [''pil-jpeg'', ''cv'', ''texconv-dds'', ''pil''])"
    by blast
  then show ?thesis
    by (auto simp: decoders_names invoked_def)
qed

theorem first_raster_ends_chain_witness:
  "results windows empty_disk ''photo.jpg'' ! 0 =
     Inr (Some (NDArray [1, 2, 3] [30, 20, 10, 60, 50, 40])) \<and>
   results windows empty_disk ''photo.jpg'' ! 1 = Inr (Some other_image) \<and>
   (\<exists>s' e. run_decoders (decoders windows) ''photo.jpg'' empty_disk None None =
             (s', Some (NDArray [1, 2, 3] [30, 20, 10, 60, 50, 40]), e) \<and>
           invoked empty_disk s' = [Decode ''pil-jpeg'' ''photo.jpg''])"
proof -
  have r0: "results windows empty_disk ''photo.jpg'' ! 0 =
     Inr (Some (NDArray [1, 2, 3] [30, 20, 10, 60, 50, 40]))"
    by code_simp
  have r1: "results windows empty_disk ''photo.jpg'' ! 1 = Inr (Some other_image)"
    by code_simp
  have b: "\<forall>j < (0::nat). no_raster (results windows empty_disk ''photo.jpg'' ! j)"
    by simp
  have z: "(0::nat) < 4" by simp
  from first_raster_ends_chain [OF z b r0]
  have "\<exists>s' e. run_decoders (decoders windows) ''photo.jpg'' empty_disk None None =
             (s', Some (NDArray [1, 2, 3] [30, 20, 10, 60, 50, 40]), e) \<and>
           invoked empty_disk s' = [Decode ''pil-jpeg'' ''photo.jpg'']"
    by simp
  with r0 r1 show ?thesis by blast
qed

text \<open>
  C4: for a root that names an archive, that is, one that ends in \<open>units.scd\<close>, the load
  makes its temporary directory and then extracts, from the archive at the root as given,
  the member \<open>units/{unit}/{unit}_{suffix}.dds\<close>, where the suffix is \<open>Albedo\<close>, \<open>SpecTeam\<close>
  or \<open>normalsTS\<close> for the three texture kinds.
\<close>

theorem archive_resolution:
  assumes "endswith root ''units.scd''"
  shows "\<exists>rest. invoked s (fst (load_image_node env s root unit tex target)) =
           Mkdtemp (tempname env ''chaiNNerSCD-'' (fs s)) #
           ZipExtract root
             (''units/'' @ unit @ ''/'' @ unit @ ''_'' @
              (case tex of
                 Albedo \<Rightarrow> ''Albedo''
               | SpecTeam \<Rightarrow> ''SpecTeam''
               | normalsTS \<Rightarrow> ''normalsTS'') @
              ''.dds'')
             (tempname env ''chaiNNerSCD-'' (fs s)) # rest"
proof -
  have "texture_name tex =
      (case tex of Albedo \<Rightarrow> ''Albedo'' | SpecTeam \<Rightarrow> ''SpecTeam'' | normalsTS \<Rightarrow> ''normalsTS'')"
    by (cases tex) simp_all
  with load_archive_trace [OF assms, of s env unit tex target] show ?thesis
    by auto
qed

theorem archive_resolution_witness:
  "endswith scd ''units.scd'' \<and>
   (\<exists>rest. invoked empty_disk (fst (load_image_node windows empty_disk scd ''UEB0301'' Albedo ''out'')) =
      Mkdtemp tempdir0 # ZipExtract scd ''units/UEB0301/UEB0301_Albedo.dds'' tempdir0 # rest) \<and>
   (\<exists>rest. invoked empty_disk (fst (load_image_node windows empty_disk scd ''UEB0301'' SpecTeam ''out'')) =
      Mkdtemp tempdir0 # ZipExtract scd ''units/UEB0301/UEB0301_SpecTeam.dds'' tempdir0 # rest) \<and>
   (\<exists>rest. invoked empty_disk (fst (load_image_node windows empty_disk scd ''UEB0301'' normalsTS ''out'')) =
      Mkdtemp tempdir0 # ZipExtract scd ''units/UEB0301/UEB0301_normalsTS.dds'' tempdir0 # rest)"
proof -
  have e: "endswith scd ''units.scd''" by code_simp
  have t: "tempname windows ''chaiNNerSCD-'' (fs empty_disk) = tempdir0" by code_simp
  have a: "''units/'' @ ''UEB0301'' @ ''/'' @ ''UEB0301'' @ ''_'' @
           (case Albedo of Albedo \<Rightarrow> ''Albedo'' | SpecTeam \<Rightarrow> ''SpecTeam''
            | normalsTS \<Rightarrow> ''normalsTS'') @ ''.dds'' =
           ''units/UEB0301/UEB0301_Albedo.dds''" by simp
  have b: "''units/'' @ ''UEB0301'' @ ''/'' @ ''UEB0301'' @ ''_'' @
           (case SpecTeam of Albedo \<Rightarrow> ''Albedo'' | SpecTeam \<Rightarrow> ''SpecTeam''
            | normalsTS \<Rightarrow> ''normalsTS'') @ ''.dds'' =
           ''units/UEB0301/UEB0301_SpecTeam.dds''" by simp
  have c: "''units/'' @ ''UEB0301'' @ ''/'' @ ''UEB0301'' @ ''_'' @
           (case normalsTS of Albedo \<Rightarrow> ''Albedo'' | SpecTeam \<Rightarrow> ''SpecTeam''
            | normalsTS \<Rightarrow> ''normalsTS'') @ ''.dds'' =
           ''units/UEB0301/UEB0301_normalsTS.dds''" by simp
  from archive_resolution [OF e, of empty_disk windows "''UEB0301''" Albedo "''out''"]
  have 1: "\<exists>rest. invoked empty_disk (fst (load_image_node windows empty_disk scd ''UEB0301'' Albedo ''out'')) =
      Mkdtemp tempdir0 # ZipExtract scd ''units/UEB0301/UEB0301_Albedo.dds'' tempdir0 # rest"
    unfolding t a .
  from archive_resolution [OF e, of empty_disk windows "''UEB0301''" SpecTeam "''out''"]
  have 2: "\<exists>rest. invoked empty_disk (fst (load_image_node windows empty_disk scd ''UEB0301'' SpecTeam ''out'')) =
      Mkdtemp tempdir0 # ZipExtract scd ''units/UEB0301/UEB0301_SpecTeam.dds'' tempdir0 # rest"
    unfolding t b .
  from archive_resolution [OF e, of empty_disk windows "''UEB0301''" normalsTS "''out''"]
  have 3: "\<exists>rest. invoked empty_disk (fst (load_image_node windows empty_disk scd ''UEB0301'' normalsTS ''out'')) =
      Mkdtemp tempdir0 # ZipExtract scd ''units/UEB0301/UEB0301_normalsTS.dds'' tempdir0 # rest"
    unfolding t c .
  from e 1 2 3 show ?thesis by blast
qed

text \<open>
  C5: for a root that does not name an archive, every decoder the load calls is given the
  root without its last character when that is a backslash, followed by a backslash, the
  unit, a backslash, the unit, an underscore, the suffix and \<open>.dds\<close>. Nothing else of the
  root is changed: a second trailing backslash, a slash and the case of letters stay.
\<close>

theorem direct_resolution:
  assumes "\<not> endswith root ''units.scd''"
  shows "\<exists>k. 0 < k \<and> k \<le> 4 \<and>
     invoked s (fst (load_image_node env s root unit tex target)) =
     map (\<lambda>n. Decode n
            ((if root \<noteq> [] \<and> last root = CHR 0x5C then butlast root else root) @
             bs @ unit @ bs @ unit @ ''_'' @ texture_name tex @ ''.dds''))
         (take k [''pil-jpeg'', ''cv'', ''texconv-dds'', ''pil''])"
  using load_direct_trace [OF assms, of s env unit tex target]
  unfolding removesuffix_single .

theorem direct_resolution_witness:
  "\<not> endswith (units_dir @ bs) ''units.scd'' \<and>
   (\<exists>k. 0 < k \<and> k \<le> 4 \<and>
     invoked empty_disk
       (fst (load_image_node windows empty_disk (units_dir @ bs) ''UEB0301'' normalsTS '''')) =
     map (\<lambda>n. Decode n (units_dir @ bs @ ''UEB0301'' @ bs @ ''UEB0301_normalsTS.dds''))
         (take k [''pil-jpeg'', ''cv'', ''texconv-dds'', ''pil'']))"
proof -
  have e: "\<not> endswith (units_dir @ bs) ''units.scd''" by code_simp
  have p: "(if units_dir @ bs \<noteq> [] \<and> last (units_dir @ bs) = CHR 0x5C
            then butlast (units_dir @ bs) else units_dir @ bs) @
           bs @ ''UEB0301'' @ bs @ ''UEB0301'' @ ''_'' @ texture_name normalsTS @ ''.dds'' =
           units_dir @ bs @ ''UEB0301'' @ bs @ ''UEB0301_normalsTS.dds''"
    by simp
  from direct_resolution [OF e, of empty_disk windows "''UEB0301''" normalsTS "''''"]
  have "\<exists>k. 0 < k \<and> k \<le> 4 \<and>
     invoked empty_disk
       (fst (load_image_node windows empty_disk (units_dir @ bs) ''UEB0301'' normalsTS '''')) =
     map (\<lambda>n. Decode n (units_dir @ bs @ ''UEB0301'' @ bs @ ''UEB0301_normalsTS.dds''))
         (take k [''pil-jpeg'', ''cv'', ''texconv-dds'', ''pil''])"
    unfolding p .
  with e show ?thesis by blast
qed

text \<open>
  C6 (as stated, fails): resolution is said not to depend on how many trailing separators
  the root carries. A root with two of them keeps both: the decoders are given a path with two
  backslashes between the root and the unit, not the path of the root without separators.
\<close>

theorem two_trailing_separators_kept:
  "invoked empty_disk
     (fst (load_image_node windows empty_disk (units_dir @ bs @ bs) ''UEB0301'' Albedo ''out'')) =
     map (\<lambda>n. Decode n (units_dir @ bs @ bs @ ''UEB0301'' @ bs @ ''UEB0301_Albedo.dds''))
       [''pil-jpeg'', ''cv'', ''texconv-dds'', ''pil''] \<and>
   units_dir @ bs @ bs @ ''UEB0301'' @ bs @ ''UEB0301_Albedo.dds'' \<noteq>
   units_dir @ bs @ ''UEB0301'' @ bs @ ''UEB0301_Albedo.dds''"
  by code_simp

text \<open>
  C6 (amended): let the root be \<open>R\<close>, which does not end in a backslash, followed by \<open>n\<close>
  backslashes, and let it name no archive. Then every decoder is given \<open>R\<close>, then one
  backslash when \<open>n\<close> is 0 or 1 and \<open>n\<close> backslashes otherwise, then \<open>U\U_{suffix}.dds\<close>: one
  trailing separator makes no difference, and of more than one all are kept. Every root that
  names an archive resolves to the member \<open>units/U/U_{suffix}.dds\<close>. The suffix is \<open>Albedo\<close>,
  \<open>SpecTeam\<close> or \<open>normalsTS\<close>.
\<close>

theorem trailing_separators_resolution:
  assumes "\<not> endswith R bs"
    and "\<not> endswith (R @ replicate n (CHR 0x5C)) ''units.scd''"
  shows "(\<exists>k. 0 < k \<and> k \<le> 4 \<and>
            invoked s (fst (load_image_node env s (R @ replicate n (CHR 0x5C)) U tex target)) =
            map (\<lambda>nm. Decode nm
                   (R @ replicate (max n 1) (CHR 0x5C) @ U @ bs @ U @ ''_'' @
                    (case tex of
                       Albedo \<Rightarrow> ''Albedo''
                     | SpecTeam \<Rightarrow> ''SpecTeam''
                     | normalsTS \<Rightarrow> ''normalsTS'') @
                    ''.dds''))
              (take k [''pil-jpeg'', ''cv'', ''texconv-dds'', ''pil''])) \<and>
         (\<forall>A. endswith A ''units.scd'' \<longrightarrow>
            (\<exists>rest. invoked s (fst (load_image_node env s A U tex target)) =
               Mkdtemp (tempname env ''chaiNNerSCD-'' (fs s)) #
               ZipExtract A
                 (''units/'' @ U @ ''/'' @ U @ ''_'' @
                  (case tex of
                     Albedo \<Rightarrow> ''Albedo''
                   | SpecTeam \<Rightarrow> ''SpecTeam''
                   | normalsTS \<Rightarrow> ''normalsTS'') @
                  ''.dds'')
                 (tempname env ''chaiNNerSCD-'' (fs s)) # rest))"
proof -
  have name: "texture_name tex =
      (case tex of Albedo \<Rightarrow> ''Albedo'' | SpecTeam \<Rightarrow> ''SpecTeam'' | normalsTS \<Rightarrow> ''normalsTS'')"
    by (cases tex) simp_all
  have strip: "removesuffix (R @ replicate n (CHR 0x5C)) bs @ bs = R @ replicate (max n 1) (CHR 0x5C)"
  proof (cases n)
    case 0
    then show ?thesis using assms(1) by (simp add: removesuffix_def)
  next
    case (Suc m)
    have eq: "R @ replicate (Suc m) (CHR 0x5C) = (R @ replicate m (CHR 0x5C)) @ bs"
      by (simp add: replicate_append_same)
    have "removesuffix ((R @ replicate m (CHR 0x5C)) @ bs) bs = R @ replicate m (CHR 0x5C)"
      unfolding removesuffix_single by (simp only: butlast_snoc last_snoc) simp
    then have "removesuffix (R @ replicate (Suc m) (CHR 0x5C)) bs @ bs =
               R @ replicate (Suc m) (CHR 0x5C)"
      unfolding eq by simp
    then show ?thesis using Suc by simp
  qed
  from load_direct_trace [OF assms(2), of s env U tex target] obtain k where
    k: "0 < k" "k \<le> 4"
    "invoked s (fst (load_image_node env s (R @ replicate n (CHR 0x5C)) U tex target)) =
       map (\<lambda>nm. Decode nm
              ((removesuffix (R @ replicate n (CHR 0x5C)) bs @ bs) @ U @ bs @ U @ ''_'' @
               texture_name tex @ ''.dds''))
         (take k [''pil-jpeg'', ''cv'', ''texconv-dds'', ''pil''])"
    by auto
  have direct: "\<exists>k. 0 < k \<and> k \<le> 4 \<and>
            invoked s (fst (load_image_node env s (R @ replicate n (CHR 0x5C)) U tex target)) =
            map (\<lambda>nm. Decode nm
                   (R @ replicate (max n 1) (CHR 0x5C) @ U @ bs @ U @ ''_'' @
                    (case tex of
                       Albedo \<Rightarrow> ''Albedo''
                     | SpecTeam \<Rightarrow> ''SpecTeam''
                     | normalsTS \<Rightarrow> ''normalsTS'') @
                    ''.dds''))
              (take k [''pil-jpeg'', ''cv'', ''texconv-dds'', ''pil''])"
    using k unfolding strip name by (intro exI [of _ k]) simp
  have archive: "\<exists>rest. invoked s (fst (load_image_node env s A U tex target)) =
               Mkdtemp (tempname env ''chaiNNerSCD-'' (fs s)) #
               ZipExtract A
                 (''units/'' @ U @ ''/'' @ U @ ''_'' @
                  (case tex of
                     Albedo \<Rightarrow> ''Albedo''
                   | SpecTeam \<Rightarrow> ''SpecTeam''
                   | normalsTS \<Rightarrow> ''normalsTS'') @
                  ''.dds'')
                 (tempname env ''chaiNNerSCD-'' (fs s)) # rest"
    if "endswith A ''units.scd''" for A
    using load_archive_trace [OF that, of s env U tex target] unfolding name by blast
  from direct archive show ?thesis by blast
qed

theorem trailing_separators_resolution_witness:
  "\<not> endswith units_dir bs \<and>
   \<not> endswith (units_dir @ replicate 2 (CHR 0x5C)) ''units.scd'' \<and>
   \<not> endswith (units_dir @ replicate 1 (CHR 0x5C)) ''units.scd'' \<and>
   \<not> endswith (units_dir @ replicate 0 (CHR 0x5C)) ''units.scd'' \<and>
   (\<exists>k. 0 < k \<and> k \<le> 4 \<and>
      invoked empty_disk
        (fst (load_image_node windows empty_disk (units_dir @ bs @ bs) ''UEB0301'' normalsTS ''out'')) =
      map (\<lambda>nm. Decode nm (units_dir @ bs @ bs @ ''UEB0301'' @ bs @ ''UEB0301_normalsTS.dds''))
        (take k [''pil-jpeg'', ''cv'', ''texconv-dds'', ''pil''])) \<and>
   (\<exists>k. 0 < k \<and> k \<le> 4 \<and>
      invoked empty_disk
        (fst (load_image_node windows empty_disk (units_dir @ bs) ''UEB0301'' normalsTS ''out'')) =
      map (\<lambda>nm. Decode nm (units_dir @ bs @ ''UEB0301'' @ bs @ ''UEB0301_normalsTS.dds''))
        (take k [''pil-jpeg'', ''cv'', ''texconv-dds'', ''pil''])) \<and>
   (\<exists>k. 0 < k \<and> k \<le> 4 \<and>
      invoked empty_disk
        (fst (load_image_node windows empty_disk units_dir ''UEB0301'' normalsTS ''out'')) =
      map (\<lambda>nm. Decode nm (units_dir @ bs @ ''UEB0301'' @ bs @ ''UEB0301_normalsTS.dds''))
        (take k [''pil-jpeg'', ''cv'', ''texconv-dds'', ''pil''])) \<and>
   endswith scd ''units.scd'' \<and>
   (\<exists>rest. invoked empty_disk (fst (load_image_node windows empty_disk scd ''UEB0301'' normalsTS ''out'')) =
      Mkdtemp tempdir0 # ZipExtract scd ''units/UEB0301/UEB0301_normalsTS.dds'' tempdir0 # rest)"
proof -
  have a: "\<not> endswith units_dir bs" by code_simp
  have b2: "\<not> endswith (units_dir @ replicate 2 (CHR 0x5C)) ''units.scd''" by code_simp
  have b1: "\<not> endswith (units_dir @ replicate 1 (CHR 0x5C)) ''units.scd''" by code_simp
  have b0: "\<not> endswith (units_dir @ replicate 0 (CHR 0x5C)) ''units.scd''" by code_simp
  have c: "endswith scd ''units.scd''" by code_simp
  have t: "tempname windows ''chaiNNerSCD-'' (fs empty_disk) = tempdir0" by code_simp
  have r2: "units_dir @ replicate 2 (CHR 0x5C) = units_dir @ bs @ bs"
    by (simp add: numeral_2_eq_2)
  have r1: "units_dir @ replicate 1 (CHR 0x5C) = units_dir @ bs" by simp
  have r0: "units_dir @ replicate 0 (CHR 0x5C) = units_dir" by simp
  have p2: "units_dir @ replicate (max 2 1) (CHR 0x5C) @ ''UEB0301'' @ bs @ ''UEB0301'' @ ''_'' @
            (case normalsTS of Albedo \<Rightarrow> ''Albedo'' | SpecTeam \<Rightarrow> ''SpecTeam''
             | normalsTS \<Rightarrow> ''normalsTS'') @ ''.dds'' =
            units_dir @ bs @ bs @ ''UEB0301'' @ bs @ ''UEB0301_normalsTS.dds''"
    by (simp add: numeral_2_eq_2)
  have p1: "units_dir @ replicate (max 1 1) (CHR 0x5C) @ ''UEB0301'' @ bs @ ''UEB0301'' @ ''_'' @
            (case normalsTS of Albedo \<Rightarrow> ''Albedo'' | SpecTeam \<Rightarrow> ''SpecTeam''
             | normalsTS \<Rightarrow> ''normalsTS'') @ ''.dds'' =
            units_dir @ bs @ ''UEB0301'' @ bs @ ''UEB0301_normalsTS.dds''"
    by simp
  have p0: "units_dir @ replicate (max 0 1) (CHR 0x5C) @ ''UEB0301'' @ bs @ ''UEB0301'' @ ''_'' @
            (case normalsTS of Albedo \<Rightarrow> ''Albedo'' | SpecTeam \<Rightarrow> ''SpecTeam''
             | normalsTS \<Rightarrow> ''normalsTS'') @ ''.dds'' =
            units_dir @ bs @ ''UEB0301'' @ bs @ ''UEB0301_normalsTS.dds''"
    by simp
  have m: "''units/'' @ ''UEB0301'' @ ''/'' @ ''UEB0301'' @ ''_'' @
           (case normalsTS of Albedo \<Rightarrow> ''Albedo'' | SpecTeam \<Rightarrow> ''SpecTeam''
            | normalsTS \<Rightarrow> ''normalsTS'') @ ''.dds'' =
           ''units/UEB0301/UEB0301_normalsTS.dds''" by simp
  note t2 = trailing_separators_resolution
              [OF a b2, of empty_disk windows "''UEB0301''" normalsTS "''out''"]
  note t1 = trailing_separators_resolution
              [OF a b1, of empty_disk windows "''UEB0301''" normalsTS "''out''"]
  note t0 = trailing_separators_resolution
              [OF a b0, of empty_disk windows "''UEB0301''" normalsTS "''out''"]
  from t2 [THEN conjunct1]
  have u2: "\<exists>k. 0 < k \<and> k \<le> 4 \<and>
      invoked empty_disk
        (fst (load_image_node windows empty_disk (units_dir @ bs @ bs) ''UEB0301'' normalsTS ''out'')) =
      map (\<lambda>nm. Decode nm (units_dir @ bs @ bs @ ''UEB0301'' @ bs @ ''UEB0301_normalsTS.dds''))
        (take k [''pil-jpeg'', ''cv'', ''texconv-dds'', ''pil''])"
    unfolding p2 r2 .
  from t1 [THEN conjunct1]
  have u1: "\<exists>k. 0 < k \<and> k \<le> 4 \<and>
      invoked empty_disk
        (fst (load_image_node windows empty_disk (units_dir @ bs) ''UEB0301'' normalsTS ''out'')) =
      map (\<lambda>nm. Decode nm (units_dir @ bs @ ''UEB0301'' @ bs @ ''UEB0301_normalsTS.dds''))
        (take k [''pil-jpeg'', ''cv'', ''texconv-dds'', ''pil''])"
    unfolding p1 r1 .
  from t0 [THEN conjunct1]
  have u0: "\<exists>k. 0 < k \<and> k \<le> 4 \<and>
      invoked empty_disk
        (fst (load_image_node windows empty_disk units_dir ''UEB0301'' normalsTS ''out'')) =
      map (\<lambda>nm. Decode nm (units_dir @ bs @ ''UEB0301'' @ bs @ ''UEB0301_normalsTS.dds''))
        (take k [''pil-jpeg'', ''cv'', ''texconv-dds'', ''pil''])"
    unfolding p0 r0 .
  from t2 [THEN conjunct2, rule_format, OF c]
  have u3: "\<exists>rest. invoked empty_disk (fst (load_image_node windows empty_disk scd ''UEB0301'' normalsTS ''out'')) =
      Mkdtemp tempdir0 # ZipExtract scd ''units/UEB0301/UEB0301_normalsTS.dds'' tempdir0 # rest"
    unfolding t m .
  from a b2 b1 b0 c u2 u1 u0 u3 show ?thesis by blast
qed

text \<open>
  C8: when the extension is one the image library reads and the library opens the file,
  \<open>_read_pil\<close> gives a raster of the same shape: with three channels the first and third
  channel of every pixel have changed places (RGB to BGR), with four channels likewise and
  the fourth is kept (RGBA to BGRA), and with any other channel count the array is the
  library's. Both decoders built on the library, the first and the last of the chain, give
  this result: the last always, the first for the extensions \<open>.jpg\<close> and \<open>.jpeg\<close>.
\<close>

theorem pil_channel_order:
  assumes ext: "get_ext env path \<in> set (get_pil_formats env)"
    and opened: "Image_open env path = Inr img"
    and dims: "get_h_w_c img = Inr (h, w, c)"
    and size: "length (data img) = h * w * c"
  shows "\<exists>out. read_pil env path = Inr (Some out) \<and> shape out = shape img \<and>
     (c = 3 \<longrightarrow>
        (\<forall>i < h * w.
           data out ! (3 * i) = data img ! (3 * i + 2) \<and>
           data out ! (3 * i + 1) = data img ! (3 * i + 1) \<and>
           data out ! (3 * i + 2) = data img ! (3 * i))) \<and>
     (c = 4 \<longrightarrow>
        (\<forall>i < h * w.
           data out ! (4 * i) = data img ! (4 * i + 2) \<and>
           data out ! (4 * i + 1) = data img ! (4 * i + 1) \<and>
           data out ! (4 * i + 2) = data img ! (4 * i) \<and>
           data out ! (4 * i + 3) = data img ! (4 * i + 3))) \<and>
     (c \<noteq> 3 \<and> c \<noteq> 4 \<longrightarrow> out = img) \<and>
     snd (snd (decoders env ! 3) s path) = Inr (Some out) \<and>
     (get_ext env path \<in> {''.jpg'', ''.jpeg''} \<longrightarrow>
        snd (snd (decoders env ! 0) s path) = Inr (Some out))"
proof -
  define out where
    "out = (if c = 3 then cvtColor RGB2BGR img else if c = 4 then cvtColor RGBA2BGRA img else img)"
  have r: "read_pil env path = Inr (Some out)"
    using ext opened dims by (simp add: read_pil_def out_def)
  have sh: "shape out = shape img"
    by (simp add: out_def cvtColor_def)
  have c3: "data out ! (3 * i) = data img ! (3 * i + 2) \<and>
            data out ! (3 * i + 1) = data img ! (3 * i + 1) \<and>
            data out ! (3 * i + 2) = data img ! (3 * i)" if "c = 3" "i < h * w" for i
  proof -
    have "3 * i + 2 < length (data img)" using that size by simp
    from RGB2BGR_pixel [OF this] that(1) show ?thesis by (simp add: out_def cvtColor_def)
  qed
  have c4: "data out ! (4 * i) = data img ! (4 * i + 2) \<and>
            data out ! (4 * i + 1) = data img ! (4 * i + 1) \<and>
            data out ! (4 * i + 2) = data img ! (4 * i) \<and>
            data out ! (4 * i + 3) = data img ! (4 * i + 3)" if "c = 4" "i < h * w" for i
  proof -
    have "4 * i + 3 < length (data img)" using that size by simp
    from RGBA2BGRA_pixel [OF this] that(1) show ?thesis by (simp add: out_def cvtColor_def)
  qed
  have other: "c \<noteq> 3 \<and> c \<noteq> 4 \<longrightarrow> out = img" by (simp add: out_def)
  have last: "snd (snd (decoders env ! 3) s path) = Inr (Some out)"
    using r by (simp add: decoders_def pure_decoder_def)
  have first: "get_ext env path \<in> {''.jpg'', ''.jpeg''} \<longrightarrow>
        snd (snd (decoders env ! 0) s path) = Inr (Some out)"
    using r by (simp add: decoders_def pure_decoder_def for_ext_def)
  from r sh c3 c4 other last first show ?thesis by blast
qed

theorem pil_channel_order_witness:
  "get_ext windows ''photo.jpg'' \<in> set (get_pil_formats windows) \<and>
   Image_open windows ''photo.jpg'' = Inr sample_image \<and>
   get_h_w_c sample_image = Inr (1, 2, 3) \<and>
   data sample_image = [10, 20, 30, 40, 50, 60] \<and>
   (\<exists>out. read_pil windows ''photo.jpg'' = Inr (Some out) \<and>
      data out ! 0 = 30 \<and> data out ! 1 = 20 \<and> data out ! 2 = 10 \<and>
      snd (snd (decoders windows ! 0) empty_disk ''photo.jpg'') = Inr (Some out))"
proof -
  have a: "get_ext windows ''photo.jpg'' \<in> set (get_pil_formats windows)" by code_simp
  have b: "Image_open windows ''photo.jpg'' = Inr sample_image" by code_simp
  have c: "get_h_w_c sample_image = Inr (1, 2, 3)" by code_simp
  have d: "data sample_image = [10, 20, 30, 40, 50, 60]" by (simp add: sample_image_def)
  have e: "length (data sample_image) = 1 * 2 * 3" by (simp add: d)
  have j: "get_ext windows ''photo.jpg'' \<in> {''.jpg'', ''.jpeg''}" by code_simp
  from pil_channel_order [OF a b c e, of empty_disk] obtain out where
    r: "read_pil windows ''photo.jpg'' = Inr (Some out)" and
    p: "\<forall>i < 1 * 2. data out ! (3 * i) = data sample_image ! (3 * i + 2) \<and>
           data out ! (3 * i + 1) = data sample_image ! (3 * i + 1) \<and>
           data out ! (3 * i + 2) = data sample_image ! (3 * i)" and
    f: "get_ext windows ''photo.jpg'' \<in> {''.jpg'', ''.jpeg''} \<longrightarrow>
        snd (snd (decoders windows ! 0) empty_disk ''photo.jpg'') = Inr (Some out)"
    by blast
  from p [rule_format, of 0] have "data out ! 0 = 30 \<and> data out ! 1 = 20 \<and> data out ! 2 = 10"
    by (simp add: d numeral_2_eq_2)
  with a b c d r f j show ?thesis by blast
qed

text \<open>
  C9: past its two checks (the extension is \<open>.dds\<close>, the system is Windows) \<open>_read_dds\<close> runs
  the conversion. When that gives a PNG, the result of the decoder is what \<open>_read_cv\<close> gives
  for the PNG, a value or an exception alike, and the PNG is not on disk afterwards. When the
  conversion fails there is no PNG, and its exception is the decoder's.
\<close>

theorem dds_png_deleted:
  assumes "get_ext env path = ''.dds''" and "platform_system env = ''Windows''"
  shows "case texconv env path of
           Inl e \<Rightarrow> read_dds env s path = (s, Inl e)
         | Inr png \<Rightarrow>
             read_dds env s path = (s\<lparr>fs := fs s - {png}\<rparr>, read_cv env png) \<and>
             png \<notin> fs (fst (read_dds env s path))"
  using assms
  by (simp add: read_dds_def dds_to_png_texconv_def os_remove_def split: sum.splits)

theorem dds_png_deleted_witness:
  "get_ext windows direct_normals = ''.dds'' \<and> platform_system windows = ''Windows'' \<and>
   texconv windows direct_normals = Inr ''normals.png'' \<and>
   read_dds windows empty_disk direct_normals =
     (empty_disk, Inl (RuntimeError (corrupt_msg ''normals.png''))) \<and>
   ''normals.png'' \<notin> fs (fst (read_dds windows empty_disk direct_normals)) \<and>
   get_ext windows staged_albedo = ''.dds'' \<and>
   texconv windows staged_albedo = Inr ''albedo.png'' \<and>
   read_dds windows (empty_disk\<lparr>fs := {''albedo.png'', staged_albedo}\<rparr>) staged_albedo =
     (empty_disk\<lparr>fs := {staged_albedo}\<rparr>, Inr (Some other_image)) \<and>
   ''albedo.png'' \<notin> fs (fst (read_dds windows (empty_disk\<lparr>fs := {''albedo.png'', staged_albedo}\<rparr>)
                                 staged_albedo))"
proof -
  have a: "get_ext windows direct_normals = ''.dds''" by code_simp
  have a': "get_ext windows staged_albedo = ''.dds''" by code_simp
  have b: "platform_system windows = ''Windows''" by code_simp
  have c: "texconv windows direct_normals = Inr ''normals.png''" by code_simp
  have c': "texconv windows staged_albedo = Inr ''albedo.png''" by code_simp
  have d: "read_cv windows ''normals.png'' = Inl (RuntimeError (corrupt_msg ''normals.png''))"
    by code_simp
  have d': "read_cv windows ''albedo.png'' = Inr (Some other_image)" by code_simp
  have e: "empty_disk\<lparr>fs := fs empty_disk - {''normals.png''}\<rparr> = empty_disk"
    by (simp add: empty_disk_def)
  have e': "(empty_disk\<lparr>fs := {''albedo.png'', staged_albedo}\<rparr>)
              \<lparr>fs := fs (empty_disk\<lparr>fs := {''albedo.png'', staged_albedo}\<rparr>) - {''albedo.png''}\<rparr> =
            empty_disk\<lparr>fs := {staged_albedo}\<rparr>"
    by code_simp
  from dds_png_deleted [OF a b, of empty_disk]
  have 1: "read_dds windows empty_disk direct_normals =
             (empty_disk, Inl (RuntimeError (corrupt_msg ''normals.png''))) \<and>
           ''normals.png'' \<notin> fs (fst (read_dds windows empty_disk direct_normals))"
    by (simp add: c d e) (simp add: empty_disk_def)
  from dds_png_deleted [OF a' b, of "empty_disk\<lparr>fs := {''albedo.png'', staged_albedo}\<rparr>"]
  have 2: "read_dds windows (empty_disk\<lparr>fs := {''albedo.png'', staged_albedo}\<rparr>) staged_albedo =
             (empty_disk\<lparr>fs := {staged_albedo}\<rparr>, Inr (Some other_image)) \<and>
           ''albedo.png'' \<notin> fs (fst (read_dds windows (empty_disk\<lparr>fs := {''albedo.png'', staged_albedo}\<rparr>)
                                 staged_albedo))"
    by (simp add: c' d' e') (simp add: staged_albedo_def tempdir0_def)
  from a a' b c c' 1 2 show ?thesis by blast
qed

text \<open>C10: every path the load hands to a decoder of the chain ends in \<open>.dds\<close>, and \<open>.dds\<close> is
  its extension. The first decoder of the chain, \<open>pil-jpeg\<close>, which applies to \<open>.jpg\<close> and
  \<open>.jpeg\<close> only, therefore gives nothing on it, and a raster that the load returns is the
  result of one of the three decoders after it.
\<close>

theorem jpeg_decoder_never_applies:
  assumes "Decode name path \<in> set (invoked s (fst (load_image_node env s root unit tex target)))"
  shows "endswith path ''.dds'' \<and> get_ext env path = ''.dds'' \<and>
         fst (decoders env ! 0) = ''pil-jpeg'' \<and>
         snd (decoders env ! 0) st path = (st, Inr None) \<and>
         (\<forall>img a b c d.
            snd (load_image_node env s root unit tex target) = Inr (img, a, b, c, d) \<longrightarrow>
            (\<exists>i \<in> {1, 2, 3}. results env st path ! i = Inr (Some img)))"
proof -
  from load_working_path [OF assms] obtain q where
    path: "path = q @ ''_'' @ texture_name tex @ ''.dds''" by blast
  have e: "endswith path ''.dds''" unfolding path by (rule texture_path_dds)
  have x: "get_ext env path = ''.dds''" unfolding path by (rule get_ext_dds)
  have n: "fst (decoders env ! 0) = ''pil-jpeg''" by (simp add: decoders_def)
  have f: "snd (decoders env ! 0) st path = (st, Inr None)"
    by (simp add: decoders_def for_ext_def x)
  have r0: "results env st path ! 0 = Inr None"
    using f by (simp add: results_def decoders_def)
  have "\<exists>i \<in> {1, 2, 3}. results env st path ! i = Inr (Some img)"
    if ok: "snd (load_image_node env s root unit tex target) = Inr (img, a, b, c, d)"
    for img a b c d
  proof -
    from load_chain [OF assms] obtain s2 s3 img' err where
      run: "run_decoders (decoders env) path s2 None None = (s3, img', err)" and
      out: "snd (load_image_node env s root unit tex target) =
         (case img' of
            None \<Rightarrow>
              (case err of
                 Some e \<Rightarrow> Inl e
               | None \<Rightarrow> Inl (RuntimeError (unreadable_msg path)))
          | Some i \<Rightarrow> Inr (i, root, unit, unit @ ''_'' @ texture_name tex, target))"
      by blast
    from out ok have "img' = Some img" by (auto split: option.splits)
    with run have "run_decoders (decoders env) path s2 None None = (s3, Some img, err)" by simp
    from chain_raster [OF this, of st] obtain i where
      i: "i < 4" "results env st path ! i = Inr (Some img)" by blast
    have "i \<noteq> 0"
    proof
      assume "i = 0"
      with i(2) r0 show False by simp
    qed
    with i(1) have "i \<in> {1, 2, 3}" by auto
    with i(2) show ?thesis by blast
  qed
  with e x n f show ?thesis by blast
qed

theorem jpeg_decoder_never_applies_witness:
  "Decode ''pil-jpeg'' staged_albedo
     \<in> set (invoked empty_disk (fst (load_image_node windows empty_disk scd ''UEB0301'' Albedo ''out'')))
   \<and> endswith staged_albedo ''.dds''
   \<and> snd (decoders windows ! 0) empty_disk staged_albedo = (empty_disk, Inr None)
   \<and> snd (load_image_node windows empty_disk scd ''UEB0301'' Albedo ''out'') =
       Inr (other_image, scd, ''UEB0301'', ''UEB0301_Albedo'', ''out'')
   \<and> (\<exists>i \<in> {1, 2, 3}. results windows empty_disk staged_albedo ! i = Inr (Some other_image))"
proof -
  have d: "Decode ''pil-jpeg'' staged_albedo
     \<in> set (invoked empty_disk (fst (load_image_node windows empty_disk scd ''UEB0301'' Albedo ''out'')))"
    by code_simp
  have h: "snd (load_image_node windows empty_disk scd ''UEB0301'' Albedo ''out'') =
       Inr (other_image, scd, ''UEB0301'', ''UEB0301_Albedo'', ''out'')"
    by code_simp
  from jpeg_decoder_never_applies [OF d, of empty_disk] h d show ?thesis by blast
qed

end
